theory Spec2Isabelle
  imports Complex_Main "HOL-Library.Char_ord" "HOL-Library.List_Lexorder"
begin

section \<open>Python values, exceptions and attribute access\<close>

text \<open>
  The module \<^verbatim>\<open>flightscheduler.py\<close> defines one class, \<^verbatim>\<open>FlightScheduler\<close>, whose
  methods talk to Discord's REST interface. Every effect of a method (an HTTP request, a
  message sent or deleted, a log line, a sleep, a task handed to the event loop) is
  recorded in a trace; every value that comes back from outside (a response status, a
  decoded JSON body, a clock reading, the answer of a user) is an argument of the model.
  An exception is a value of type \<open>exc\<close>; a method returns its trace together with
  \<open>Inr ()\<close> for a normal return or \<open>Inl e\<close> for an exception that leaves the method.
\<close>

datatype exc =
    AttributeError | KeyError | ValueError | TypeError | OverflowError
  | HTTPException | CancelledError | TimeoutError | OSError

text \<open>The values stored in attributes and interpolated into f-strings.\<close>

datatype pyval = PNone | PStr string | PInt int | PBot

type_synonym obj = "string \<rightharpoonup> pyval"

text \<open>
  \<^verbatim>\<open>self.NAME\<close>: the class body of \<^verbatim>\<open>FlightScheduler\<close> defines methods only, so a name
  that is not one of them is found in the instance dictionary or not at all.
\<close>

definition getattr :: "obj \<Rightarrow> string \<Rightarrow> exc + pyval" where
  "getattr self attr = (case self attr of None \<Rightarrow> Inl AttributeError | Some v \<Rightarrow> Inr v)"

text \<open>Decimal digits of an integer, as \<^verbatim>\<open>str\<close> prints them.\<close>

fun str_nat :: "nat \<Rightarrow> string" where
  "str_nat n =
     (if n < 10 then [char_of (48 + n)]
      else str_nat (n div 10) @ [char_of (48 + n mod 10)])"

definition str_int :: "int \<Rightarrow> string" where
  "str_int i = (if i < 0 then CHR ''-'' # str_nat (nat (- i)) else str_nat (nat i))"

text \<open>What an f-string puts in place of \<^verbatim>\<open>{v}\<close>.\<close>

fun py_str :: "pyval \<Rightarrow> string" where
  "py_str PNone = ''None''"
| "py_str (PStr s) = s"
| "py_str (PInt i) = str_int i"
| "py_str PBot = ''<bot>''"

text \<open>
  A key of a decoded JSON object is absent, present with \<^verbatim>\<open>null\<close>, or present with a
  value. \<^verbatim>\<open>d.get(k, default)\<close> gives the default for an absent key only; the result
  \<open>None\<close> stands for Python's \<^verbatim>\<open>None\<close>.
\<close>

datatype 'a field = Absent | Null | Val 'a

definition dict_get :: "'a field \<Rightarrow> 'a \<Rightarrow> 'a option" where
  "dict_get f d = (case f of Absent \<Rightarrow> Some d | Null \<Rightarrow> None | Val v \<Rightarrow> Some v)"

section \<open>Strings\<close>

text \<open>
  A string is a list of characters with codes below 256. \<^verbatim>\<open>str.strip\<close>, \<^verbatim>\<open>str.isspace\<close>
  and the class \<^verbatim>\<open>\s\<close> of \<^verbatim>\<open>re\<close> agree on which of these are white space;
  \<^verbatim>\<open>\d\<close> matches the ten decimal digits.
\<close>

definition is_space :: "char \<Rightarrow> bool" where
  "is_space c = ((of_char c :: int) \<in> {9, 10, 11, 12, 13, 28, 29, 30, 31, 32, 133, 160})"

definition is_digit :: "char \<Rightarrow> bool" where
  "is_digit c = (48 \<le> (of_char c :: int) \<and> (of_char c :: int) \<le> 57)"

definition strip :: "string \<Rightarrow> string" where
  "strip s = rev (dropWhile is_space (rev (dropWhile is_space s)))"

text \<open>\<^verbatim>\<open>str.lower\<close> on codes below 256: the letters A to Z and the capital letters of Latin-1.\<close>

definition lower_char :: "char \<Rightarrow> char" where
  "lower_char c =
     (let n = (of_char c :: int)
      in if (65 \<le> n \<and> n \<le> 90) \<or> (192 \<le> n \<and> n \<le> 222 \<and> n \<noteq> 215)
         then char_of (n + 32) else c)"

definition lower :: "string \<Rightarrow> string" where
  "lower s = map lower_char s"

text \<open>\<^verbatim>\<open>link.rstrip("/").split("/")[-1]\<close>: what follows the last slash, trailing slashes apart.\<close>

definition event_id_of :: "string \<Rightarrow> string" where
  "event_id_of link =
     rev (takeWhile (\<lambda>c. c \<noteq> CHR ''/'') (dropWhile (\<lambda>c. c = CHR ''/'') (rev link)))"

text \<open>\<^verbatim>\<open>s.replace("Z", "+00:00")\<close>.\<close>

definition replace_Z :: "string \<Rightarrow> string" where
  "replace_Z s = concat (map (\<lambda>c. if c = CHR ''Z'' then ''+00:00'' else [c]) s)"

section \<open>Dates, times and durations\<close>

text \<open>
  A \<^verbatim>\<open>datetime\<close> is represented by its distance in microseconds from
  1970-01-01T00:00:00; it is naive (no offset attached) or aware (an instant on the UTC
  scale). A \<^verbatim>\<open>timedelta\<close> is a number of microseconds. The type covers the years 1 to
  9999, and arithmetic that leaves this range raises \<^verbatim>\<open>OverflowError\<close>; mixing a naive
  and an aware value in a comparison or a difference raises \<^verbatim>\<open>TypeError\<close>.
\<close>

datatype pydatetime = Naive int | Aware int

definition datetime_min :: int where
  "datetime_min = - 62135596800000000"

definition datetime_max :: int where
  "datetime_max = 253402300799999999"

definition minutes :: "int \<Rightarrow> int" where
  "minutes n = n * 60000000"

definition in_range :: "int \<Rightarrow> bool" where
  "in_range t = (datetime_min \<le> t \<and> t \<le> datetime_max)"

fun dt_plus :: "pydatetime \<Rightarrow> int \<Rightarrow> exc + pydatetime" where
  "dt_plus (Naive t) d = (if in_range (t + d) then Inr (Naive (t + d)) else Inl OverflowError)"
| "dt_plus (Aware t) d = (if in_range (t + d) then Inr (Aware (t + d)) else Inl OverflowError)"

fun dt_minus :: "pydatetime \<Rightarrow> pydatetime \<Rightarrow> exc + int" where
  "dt_minus (Naive a) (Naive b) = Inr (a - b)"
| "dt_minus (Aware a) (Aware b) = Inr (a - b)"
| "dt_minus _ _ = Inl TypeError"

text \<open>\<^verbatim>\<open>a > b\<close> on datetimes.\<close>

fun dt_greater :: "pydatetime \<Rightarrow> pydatetime \<Rightarrow> exc + bool" where
  "dt_greater (Naive a) (Naive b) = Inr (b < a)"
| "dt_greater (Aware a) (Aware b) = Inr (b < a)"
| "dt_greater _ _ = Inl TypeError"

text \<open>
  \<^verbatim>\<open>datetime.utcfromtimestamp(n)\<close> for an integer number of seconds: a naive value, or an
  exception when the year would fall outside 1 to 9999. CPython raises \<open>ValueError\<close>
  there, and for much larger numbers \<open>OSError\<close> or \<open>OverflowError\<close>; the one name
  \<open>ValueError\<close> stands for all three, since \<^verbatim>\<open>flight_create\<close> catches them with the same
  handler and only the text of the error embed tells them apart.
\<close>

definition utcfromtimestamp :: "int \<Rightarrow> exc + pydatetime" where
  "utcfromtimestamp n =
     (if in_range (n * 1000000) then Inr (Naive (n * 1000000)) else Inl ValueError)"

subsection \<open>Floating-point division\<close>

text \<open>
  \<^verbatim>\<open>timedelta.total_seconds()\<close> divides the microsecond count by \<open>10\<^sup>6\<close> and returns a
  float; \<^verbatim>\<open>/ 60\<close> divides that float. A float is a binary64 number, and each division
  gives the binary64 number nearest to the exact quotient, ties going to the even
  significand. A float is represented here by the rational number it denotes. The
  quotients that arise from datetimes lie between \<open>10\<^sup>-\<^sup>8\<close> and \<open>10\<^sup>1\<^sup>2\<close> in
  magnitude, far inside the exponent range of binary64, so the rounding keeps 53
  significant bits and puts no bound on the exponent.
\<close>

function log2_floor :: "int \<Rightarrow> int" where
  "log2_floor n = (if n < 2 then 0 else log2_floor (n div 2) + 1)"
  by pat_completeness auto
termination
  by (relation "measure nat") auto

declare log2_floor.simps [simp del]

text \<open>For \<open>x > 0\<close>, the exponent \<open>e\<close> with \<open>2\<^sup>e \<le> x < 2\<^sup>e\<^sup>+\<^sup>1\<close>.\<close>

definition binade :: "rat \<Rightarrow> int" where
  "binade x =
     (if 1 \<le> x then log2_floor \<lfloor>x\<rfloor>
      else (let j = log2_floor \<lfloor>1 / x\<rfloor>
            in if 1 \<le> x * 2 powi j then - j else - j - 1))"

definition round_half_even :: "rat \<Rightarrow> int" where
  "round_half_even y =
     (let n = \<lfloor>y\<rfloor>; r = y - of_int n
      in if r < 1 / 2 then n else if 1 / 2 < r then n + 1 else if even n then n else n + 1)"

definition round_binary64 :: "rat \<Rightarrow> rat" where
  "round_binary64 x =
     (if x = 0 then 0
      else let u = 2 powi (binade \<bar>x\<bar> - 52)
           in sgn x * of_int (round_half_even (\<bar>x\<bar> / u)) * u)"

definition truediv :: "rat \<Rightarrow> rat \<Rightarrow> rat" where
  "truediv x y = round_binary64 (x / y)"

definition total_seconds :: "int \<Rightarrow> rat" where
  "total_seconds d = truediv (of_int d) 1000000"

text \<open>\<^verbatim>\<open>int(x)\<close> on a float: the fractional part is dropped, towards zero.\<close>

definition py_int :: "rat \<Rightarrow> int" where
  "py_int x = (if 0 \<le> x then \<lfloor>x\<rfloor> else \<lceil>x\<rceil>)"

text \<open>
  \<^verbatim>\<open>max(0, int((lock_time - now).total_seconds() / 60))\<close>, from the difference
  \<^verbatim>\<open>lock_time - now\<close>.
\<close>

definition minutes_until_lock :: "int \<Rightarrow> int" where
  "minutes_until_lock delta = max 0 (py_int (truediv (total_seconds delta) 60))"

subsection \<open>Library functions taken as parameters\<close>

text \<open>
  \<^verbatim>\<open>int\<close> on a string, \<^verbatim>\<open>datetime.isoformat\<close> and \<^verbatim>\<open>datetime.fromisoformat\<close> belong
  to Python, not to this module. The methods below take them as a parameter, so that what
  is proved holds for whatever these functions compute.
\<close>

record pylib =
  lib_int :: "string \<Rightarrow> exc + int"
  lib_isoformat :: "pydatetime \<Rightarrow> string"
  lib_fromisoformat :: "string \<Rightarrow> exc + pydatetime"

text \<open>
  For running the definitions on concrete data: \<^verbatim>\<open>fromisoformat\<close> on the fixed-width
  form \<^verbatim>\<open>YYYY-MM-DDTHH:MM:SS\<close>, optionally followed by \<^verbatim>\<open>.ffffff\<close> and optionally by
  \<^verbatim>\<open>+00:00\<close> (Python accepts further forms, reported as \<^verbatim>\<open>ValueError\<close> here), and
  \<^verbatim>\<open>int\<close> on a plain run of digits.
\<close>

definition digit_of :: "char \<Rightarrow> int option" where
  "digit_of c = (if is_digit c then Some (of_char c - 48) else None)"

fun dec_value :: "int \<Rightarrow> string \<Rightarrow> int option" where
  "dec_value acc [] = Some acc"
| "dec_value acc (c # cs) =
     (case digit_of c of None \<Rightarrow> None | Some d \<Rightarrow> dec_value (10 * acc + d) cs)"

definition number :: "string \<Rightarrow> int option" where
  "number s = (if s = [] then None else dec_value 0 s)"

definition days_in_month :: "int \<Rightarrow> int \<Rightarrow> int" where
  "days_in_month y m =
     (if m = 2 then (if y mod 4 = 0 \<and> (y mod 100 \<noteq> 0 \<or> y mod 400 = 0) then 29 else 28)
      else if m = 4 \<or> m = 6 \<or> m = 9 \<or> m = 11 then 30 else 31)"

text \<open>Days from 1970-01-01 to the given day of the proleptic Gregorian calendar.\<close>

definition days_from_civil :: "int \<Rightarrow> int \<Rightarrow> int \<Rightarrow> int" where
  "days_from_civil y m d =
     (let y' = (if m \<le> 2 then y - 1 else y);
          era = y' div 400;
          yoe = y' - era * 400;
          doy = (153 * ((m + 9) mod 12) + 2) div 5 + d - 1;
          doe = yoe * 365 + yoe div 4 - yoe div 100 + doy
      in era * 146097 + doe - 719468)"

definition slice :: "nat \<Rightarrow> nat \<Rightarrow> string \<Rightarrow> string" where
  "slice i j s = take (j - i) (drop i s)"

definition fixed_fromisoformat :: "string \<Rightarrow> exc + pydatetime" where
  "fixed_fromisoformat s =
     (let rest = drop 19 s;
          frac = (if take 1 rest = ''.'' then slice 1 7 rest else ''000000'');
          zone = (if take 1 rest = ''.'' then drop 7 rest else rest)
      in case (number (slice 0 4 s), number (slice 5 7 s), number (slice 8 10 s),
               number (slice 11 13 s), number (slice 14 16 s), number (slice 17 19 s),
               number frac) of
           (Some y, Some m, Some d, Some hh, Some mm, Some ss, Some us) \<Rightarrow>
             if length s \<ge> 19 \<and> length frac = 6
                \<and> slice 4 5 s = ''-'' \<and> slice 7 8 s = ''-'' \<and> slice 10 11 s = ''T''
                \<and> slice 13 14 s = '':'' \<and> slice 16 17 s = '':''
                \<and> 1 \<le> y \<and> 1 \<le> m \<and> m \<le> 12 \<and> 1 \<le> d \<and> d \<le> days_in_month y m
                \<and> hh < 24 \<and> mm < 60 \<and> ss < 60
                \<and> (zone = [] \<or> zone = ''+00:00'')
             then let t = ((days_from_civil y m d * 24 + hh) * 60 + mm) * 60000000
                          + ss * 1000000 + us
                  in Inr (if zone = [] then Naive t else Aware t)
             else Inl ValueError
         | _ \<Rightarrow> Inl ValueError)"

definition fixed_int :: "string \<Rightarrow> exc + int" where
  "fixed_int s = (case number s of None \<Rightarrow> Inl ValueError | Some n \<Rightarrow> Inr n)"

text \<open>\<^verbatim>\<open>isoformat\<close> is used for output only; the sample library prints the microsecond count.\<close>

definition fixed_isoformat :: "pydatetime \<Rightarrow> string" where
  "fixed_isoformat t = (case t of Naive n \<Rightarrow> str_int n | Aware n \<Rightarrow> str_int n @ ''+00:00'')"

definition fixed_lib :: pylib where
  "fixed_lib =
     \<lparr>lib_int = fixed_int, lib_isoformat = fixed_isoformat,
      lib_fromisoformat = fixed_fromisoformat\<rparr>"

section \<open>Scheduled events and the summary embed\<close>

record metadata =
  md_location :: "string field"

record event =
  ev_name :: string
  ev_description :: "string field"
  ev_scheduled_start_time :: string
  ev_entity_metadata :: "metadata field"

record embed_field =
  ef_name :: string
  ef_value :: "string option"

record embed =
  em_title :: string
  em_description :: "string option"
  em_fields :: "embed_field list option"
  em_color :: nat
  em_footer :: string

text \<open>
  The embed built in \<^verbatim>\<open>update_webhook\<close> from the list \<^verbatim>\<open>upcoming\<close>
  (\<^verbatim>\<open>if not upcoming: ... else: ... upcoming[:2]\<close>).
\<close>

definition no_flights_embed :: embed where
  "no_flights_embed =
     \<lparr>em_title = ''Upcoming Flights'',
      em_description = Some ''No flights scheduled.'',
      em_fields = None,
      em_color = 0xE5E1DE,
      em_footer = ''Updates every 5 min''\<rparr>"

definition summary_field :: "event \<Rightarrow> embed_field" where
  "summary_field e = \<lparr>ef_name = ev_name e, ef_value = dict_get (ev_description e) ''''\<rparr>"

definition render :: "event list \<Rightarrow> embed" where
  "render upcoming =
     (if upcoming = [] then no_flights_embed
      else \<lparr>em_title = ''Upcoming Flights'',
            em_description = None,
            em_fields = Some (map summary_field (take 2 upcoming)),
            em_color = 0xE5E1DE,
            em_footer = ''Updates every 5 min''\<rparr>)"

text \<open>The number of fields an embed shows: none when it has no \<^verbatim>\<open>fields\<close> key.\<close>

definition field_count :: "embed \<Rightarrow> nat" where
  "field_count em = (case em_fields em of None \<Rightarrow> 0 | Some fs \<Rightarrow> length fs)"

text \<open>
  The list \<^verbatim>\<open>upcoming\<close> of \<^verbatim>\<open>update_webhook\<close>. The generator tests the items one
  after the other; each test parses the start time without its last character and reads
  the clock anew (\<open>utcnow i\<close> is the reading taken for item \<open>i\<close>, a naive UTC value). A
  start time that does not parse, or parses to an aware value, ends the tick with the
  exception. \<^verbatim>\<open>sorted\<close> is stable and its key is the start time as a string.
\<close>

fun keep_upcoming ::
  "(string \<Rightarrow> exc + pydatetime) \<Rightarrow> (nat \<Rightarrow> int) \<Rightarrow> nat \<Rightarrow> event list \<Rightarrow> exc + event list"
where
  "keep_upcoming fromisoformat utcnow i [] = Inr []"
| "keep_upcoming fromisoformat utcnow i (e # es) =
     (case fromisoformat (butlast (ev_scheduled_start_time e)) of
        Inl x \<Rightarrow> Inl x
      | Inr t \<Rightarrow>
          (case dt_greater t (Naive (utcnow i)) of
             Inl x \<Rightarrow> Inl x
           | Inr keep \<Rightarrow>
               (case keep_upcoming fromisoformat utcnow (Suc i) es of
                  Inl x \<Rightarrow> Inl x
                | Inr r \<Rightarrow> Inr (if keep then e # r else r))))"

definition upcoming_events ::
  "(string \<Rightarrow> exc + pydatetime) \<Rightarrow> (nat \<Rightarrow> int) \<Rightarrow> event list \<Rightarrow> exc + event list"
where
  "upcoming_events fromisoformat utcnow events =
     (case keep_upcoming fromisoformat utcnow 0 events of
        Inl x \<Rightarrow> Inl x
      | Inr kept \<Rightarrow> Inr (sort_key ev_scheduled_start_time kept))"

section \<open>The description template and the extraction pattern\<close>

text \<open>The \<^verbatim>\<open>description\<close> of the payload built by \<^verbatim>\<open>flight_create\<close>.\<close>

definition creation_description :: "string \<Rightarrow> string \<Rightarrow> string \<Rightarrow> string \<Rightarrow> string" where
  "creation_description flight_number departure arrival aircraft_type =
     ''<:Tail:1375059430269517885> **Etihad Airways** cordially invites you to attend Flight **''
     @ flight_number @ ''**, operating from **'' @ departure @ ''** to **'' @ arrival
     @ ''** aboard a **'' @ aircraft_type
     @ ''**.\<newline>\<newline><:Star:1375535064141795460> All passengers are requested to review the flight itinerary in `#itinerary` prior to departure to ensure a smooth and professional operation.''"

text \<open>
  The pattern of \<^verbatim>\<open>flight_start\<close> uses literal text, \<^verbatim>\<open>\d+\<close> and \<^verbatim>\<open>\s+\<close> (greedy)
  and the group \<^verbatim>\<open>(.+?)\<close> (lazy; with \<^verbatim>\<open>re.DOTALL\<close> the dot matches every
  character). The matcher below is the backtracking search of \<^verbatim>\<open>re\<close> for these
  constructs: a greedy repetition tries the longest run first, a lazy one the shortest,
  and the first complete match found in this order is the result. \<open>match_at\<close> returns the
  texts of the groups.
\<close>

datatype token = Lit string | Digits | Spaces | Group

fun greedy :: "(char \<Rightarrow> bool) \<Rightarrow> (string \<Rightarrow> 'a option) \<Rightarrow> string \<Rightarrow> 'a option" where
  "greedy P k [] = None"
| "greedy P k (c # cs) =
     (if P c then (case greedy P k cs of Some r \<Rightarrow> Some r | None \<Rightarrow> k cs) else None)"

fun lazy :: "(string \<Rightarrow> string \<Rightarrow> 'a option) \<Rightarrow> string \<Rightarrow> string \<Rightarrow> 'a option" where
  "lazy k g [] = None"
| "lazy k g (c # cs) =
     (case k (g @ [c]) cs of Some r \<Rightarrow> Some r | None \<Rightarrow> lazy k (g @ [c]) cs)"

primrec match_at :: "token list \<Rightarrow> string \<Rightarrow> string list option" where
  "match_at [] = (\<lambda>s. Some [])"
| "match_at (t # ts) =
     (\<lambda>s. case t of
        Lit l \<Rightarrow> if take (length l) s = l then match_at ts (drop (length l) s) else None
      | Digits \<Rightarrow> greedy is_digit (match_at ts) s
      | Spaces \<Rightarrow> greedy is_space (match_at ts) s
      | Group \<Rightarrow> lazy (\<lambda>g rest. map_option (Cons g) (match_at ts rest)) [] s)"

text \<open>\<^verbatim>\<open>re.search\<close>: the match at the leftmost position that has one.\<close>

fun search :: "token list \<Rightarrow> string \<Rightarrow> string list option" where
  "search ts [] = match_at ts []"
| "search ts (c # cs) =
     (case match_at ts (c # cs) of Some gs \<Rightarrow> Some gs | None \<Rightarrow> search ts cs)"

definition pattern :: "token list" where
  "pattern =
     [Lit ''<:Tail:'', Digits, Lit ''>'', Spaces,
      Lit ''**Etihad Airways** cordially invites you to attend Flight'', Spaces,
      Lit ''**'', Group, Lit ''**, operating from'', Spaces,
      Lit ''**'', Group, Lit ''** to'', Spaces,
      Lit ''**'', Group, Lit ''** aboard'']"

text \<open>
  \<^verbatim>\<open>re.search(pattern, description, re.DOTALL)\<close> followed by
  \<^verbatim>\<open>(g.strip() for g in match.groups())\<close>.
\<close>

definition parse_description :: "string \<Rightarrow> (string \<times> string \<times> string) option" where
  "parse_description description =
     (case search pattern description of
        Some [g1, g2, g3] \<Rightarrow> Some (strip g1, strip g2, strip g3)
      | _ \<Rightarrow> None)"

text \<open>Whether a text contains two asterisks in a row.\<close>

fun has_stars :: "string \<Rightarrow> bool" where
  "has_stars (a # b # s) = ((a = CHR ''*'' \<and> b = CHR ''*'') \<or> has_stars (b # s))"
| "has_stars _ = False"

section \<open>Effects\<close>

text \<open>
  A message is plain text or a \<^verbatim>\<open>discord.Embed\<close> with title, description, colour and
  fields; \<open>ErrorEmbed e\<close> is
  \<^verbatim>\<open>Embed(title="Error", description=str(e), color=0xFF0000)\<close>.
\<close>

datatype content =
    Text string
  | Embed string "string option" "nat option" "(string \<times> string) list"
  | ErrorEmbed exc

record payload =
  pl_name :: string
  pl_description :: string
  pl_scheduled_start_time :: string
  pl_scheduled_end_time :: string
  pl_privacy_level :: nat
  pl_entity_type :: nat
  pl_location :: string

text \<open>
  What the coroutine \<^verbatim>\<open>send_checkin_closed\<close> keeps from \<^verbatim>\<open>flight_start\<close>: the lock
  time, the channel, and the three extracted texts.
\<close>

record delayed =
  dl_lock_time :: pydatetime
  dl_channel :: pyval
  dl_departure :: string
  dl_flight_number :: string
  dl_arrival :: string

datatype effect =
    LoopStart
  | HttpGet string "(string \<times> string) list"
  | HttpPatch string embed "(string \<times> string) list"
  | HttpPost string payload "(string \<times> string) list"
  | HttpDelete string "(string \<times> string) list"
  | LogWarning string
  | CtxReply content
  | CtxSend content
  | ChannelSend pyval content
  | MessageDelete
  | Sleep rat
  | CreateTask delayed

type_synonym 'a io = "effect list \<times> (exc + 'a)"

definition ret :: "'a \<Rightarrow> 'a io" where
  "ret v = ([], Inr v)"

definition raise :: "exc \<Rightarrow> 'a io" where
  "raise x = ([], Inl x)"

definition emit :: "effect \<Rightarrow> unit io" where
  "emit e = ([e], Inr ())"

definition lift :: "exc + 'a \<Rightarrow> 'a io" where
  "lift r = ([], r)"

text \<open>Sequencing: an exception ends the method, the trace so far is kept.\<close>

definition seq :: "'a io \<Rightarrow> ('a \<Rightarrow> 'b io) \<Rightarrow> 'b io" where
  "seq m f =
     (case snd m of
        Inl x \<Rightarrow> (fst m, Inl x)
      | Inr v \<Rightarrow> (fst m @ fst (f v), snd (f v)))"

definition attr :: "obj \<Rightarrow> string \<Rightarrow> pyval io" where
  "attr self a = lift (getattr self a)"

text \<open>An HTTP call raises (a network failure) or gives a status and a decoded body.\<close>

datatype 'a http = HttpRaises exc | HttpResponse int 'a

definition request :: "effect \<Rightarrow> 'a http \<Rightarrow> (int \<times> 'a) io" where
  "request e r =
     (case r of
        HttpRaises x \<Rightarrow> ([e], Inl x)
      | HttpResponse status body \<Rightarrow> ([e], Inr (status, body)))"

definition red :: nat where
  "red = 0xFF0000"

definition green :: nat where
  "green = 0x00FF00"

definition grey :: nat where
  "grey = 0xE5E1DE"

section \<open>The class FlightScheduler\<close>

subsection \<open>The constructor\<close>

text \<open>
  \<^verbatim>\<open>__init__\<close> stores \<^verbatim>\<open>bot\<close> and \<^verbatim>\<open>TOKEN\<close> (the value of
  \<^verbatim>\<open>bot.config.get("TOKEN")\<close>) on the instance, assigns six names of its own local
  scope, and starts the loop. The locals are bound by \<open>let\<close> and go nowhere. (The source
  gives \<^verbatim>\<open>WEBHOOK_URL\<close> the address of a webhook with its secret token; the token is
  left out here.)
\<close>

definition init :: "pyval \<Rightarrow> obj \<times> effect list" where
  "init token =
     (let self = Map.empty(''bot'' \<mapsto> PBot);
          self = self(''TOKEN'' \<mapsto> token);
          GUILD_ID = PStr ''1288926604415733854'';
          REQUIRED_ROLE_ID = PStr ''1288926707285495941'';
          ANNOUNCEMENT_CHANNEL_ID = PStr ''1290777608782483640'';
          WEBHOOK_URL = PStr ''https://discord.com/api/webhooks/1290778044948283483/'';
          WEBHOOK_MESSAGE_ID = PStr ''1290778370749104263'';
          LOGGING_CHANNEL_ID = PStr ''1288927464080543806''
      in (self, [LoopStart]))"

definition config_names :: "string list" where
  "config_names =
     [''GUILD_ID'', ''REQUIRED_ROLE_ID'', ''ANNOUNCEMENT_CHANNEL_ID'', ''WEBHOOK_URL'',
      ''WEBHOOK_MESSAGE_ID'', ''LOGGING_CHANNEL_ID'']"

subsection \<open>update_webhook\<close>

record tick_env =
  te_fetch :: "event list http"
  te_utcnow :: "nat \<Rightarrow> int"
  te_patch :: "unit http"
  te_log_channel :: bool

definition events_url :: "pyval \<Rightarrow> string" where
  "events_url guild = ''https://discord.com/api/v10/guilds/'' @ py_str guild @ ''/scheduled-events''"

definition update_webhook :: "pylib \<Rightarrow> obj \<Rightarrow> tick_env \<Rightarrow> unit io" where
  "update_webhook lib self env =
     seq (attr self ''TOKEN'') (\<lambda>token.
     seq (attr self ''GUILD_ID'') (\<lambda>guild.
     seq (request
            (HttpGet (events_url guild)
               [(''Authorization'', ''Bot '' @ py_str token),
                (''Content-Type'', ''application/json'')])
            (te_fetch env)) (\<lambda>(status, events).
     if status \<noteq> 200
     then emit (LogWarning (''Failed to fetch scheduled events, status '' @ str_int status))
     else
     seq (lift (upcoming_events (lib_fromisoformat lib) (te_utcnow env) events)) (\<lambda>upcoming.
     seq (attr self ''WEBHOOK_URL'') (\<lambda>webhook_url.
     seq (attr self ''WEBHOOK_MESSAGE_ID'') (\<lambda>message_id.
     seq (request
            (HttpPatch (py_str webhook_url @ ''/messages/'' @ py_str message_id)
               (render upcoming) [(''Content-Type'', ''application/json'')])
            (te_patch env)) (\<lambda>(patch_status, _).
     seq (if patch_status \<noteq> 200 \<and> patch_status \<noteq> 204
          then emit (LogWarning
                 (''Failed to update webhook embed, status '' @ str_int patch_status))
          else ret ()) (\<lambda>_.
     seq (attr self ''LOGGING_CHANNEL_ID'') (\<lambda>log_id.
     if te_log_channel env
     then emit (ChannelSend log_id (Text ''Updated flight schedule webhook.''))
     else ret ())))))))))"

subsection \<open>ask\<close>

text \<open>The user answers within 60 seconds or not at all.\<close>

datatype answer = Reply string | NoReply

definition ask :: "content \<Rightarrow> answer \<Rightarrow> string io" where
  "ask prompt a =
     seq (emit (CtxSend prompt)) (\<lambda>_.
     case a of
       NoReply \<Rightarrow>
         seq (emit (CtxSend (Embed ''Timed out. Please try again later.'' None (Some red) [])))
           (\<lambda>_. raise TimeoutError)
     | Reply text \<Rightarrow>
         if lower text = ''cancel''
         then seq (emit (CtxSend (Embed ''Flight creation cancelled.'' None (Some red) [])))
                (\<lambda>_. raise CancelledError)
         else ret text)"

subsection \<open>flight_create\<close>

record ctx =
  cx_author :: string
  cx_roles :: "int list"

record create_env =
  ce_flight_number :: answer
  ce_flight_time :: answer
  ce_aircraft_type :: answer
  ce_departure :: answer
  ce_arrival :: answer
  ce_roblox_link :: answer
  ce_post :: "unit http"
  ce_log_channel :: bool

text \<open>
  \<^verbatim>\<open>r.id for r in ctx.author.roles\<close> are integers; the attribute is compared with them
  as the value it is.
\<close>

definition has_role :: "pyval \<Rightarrow> ctx \<Rightarrow> bool" where
  "has_role role c = (role \<in> set (map PInt (cx_roles c)))"

definition no_permission :: effect where
  "no_permission = CtxReply (Text ''You don't have permission to use this command.'')"

text \<open>
  The title of the success embed is written in the source with the three characters that
  a check mark becomes when its bytes are read in the wrong encoding; here they are the
  bytes of that text.
\<close>

definition created_title :: string where
  "created_title =
     [CHR 0xC3, CHR 0xA2, CHR 0xC5, CHR 0x93, CHR 0xE2, CHR 0x80, CHR 0xA6]
     @ '' Flight created successfully!''"

definition flight_create_body :: "pylib \<Rightarrow> obj \<Rightarrow> ctx \<Rightarrow> create_env \<Rightarrow> unit io" where
  "flight_create_body lib self c env =
     seq (attr self ''REQUIRED_ROLE_ID'') (\<lambda>role.
     if \<not> has_role role c then emit no_permission
     else
     seq (ask (Embed ''Flight Number'' (Some ''Enter the flight number (e.g., EA301).'') None [])
            (ce_flight_number env)) (\<lambda>flight_number.
     seq (ask (Embed ''Flight Time''
                 (Some ''Enter the flight time as a Unix timestamp (e.g., 1727780400).'') None [])
            (ce_flight_time env)) (\<lambda>flight_time_raw.
     seq (lift (lib_int lib flight_time_raw)) (\<lambda>flight_time.
     seq (lift (utcfromtimestamp flight_time)) (\<lambda>start.
     seq (lift (dt_plus start (minutes 45))) (\<lambda>end_time.
     seq (ask (Embed ''Aircraft Type'' (Some ''Enter the aircraft type (e.g., A320neo).'') None [])
            (ce_aircraft_type env)) (\<lambda>aircraft_type.
     seq (ask (Embed ''Departure'' (Some ''Enter the departure airport (e.g., Edinburgh).'') None [])
            (ce_departure env)) (\<lambda>departure.
     seq (ask (Embed ''Arrival'' (Some ''Enter the arrival airport (e.g., Madeira).'') None [])
            (ce_arrival env)) (\<lambda>arrival.
     seq (ask (Embed ''Roblox Link'' (Some ''Enter the Roblox game link.'') None [])
            (ce_roblox_link env)) (\<lambda>roblox_link.
     seq (attr self ''GUILD_ID'') (\<lambda>guild.
     seq (attr self ''TOKEN'') (\<lambda>token.
     seq (request
            (HttpPost (events_url guild)
               \<lparr>pl_name = flight_number @ '' | '' @ departure @ '' - '' @ arrival,
                pl_description =
                  creation_description flight_number departure arrival aircraft_type,
                pl_scheduled_start_time = lib_isoformat lib start,
                pl_scheduled_end_time = lib_isoformat lib end_time,
                pl_privacy_level = 2,
                pl_entity_type = 3,
                pl_location = roblox_link\<rparr>
               [(''Authorization'', ''Bot '' @ py_str token),
                (''Content-Type'', ''application/json'')])
            (ce_post env)) (\<lambda>(status, _).
     if status = 201
     then
       seq (emit (CtxSend (Embed created_title None (Some green) []))) (\<lambda>_.
       seq (attr self ''LOGGING_CHANNEL_ID'') (\<lambda>log_id.
       if ce_log_channel env
       then emit (ChannelSend log_id
              (Embed ''Logging'' None (Some grey)
                 [(''Create Flight'', cx_author c @ '' created flight '' @ flight_number)]))
       else ret ()))
     else emit (CtxSend (Embed ''Failed to create flight''
                  (Some (''Status code: '' @ str_int status)) (Some red) [])))))))))))))))"

text \<open>
  The \<^verbatim>\<open>try\<close> statement around the body: \<^verbatim>\<open>CancelledError\<close> ends the command
  silently, any other exception is reported to the user.
\<close>

definition flight_create :: "pylib \<Rightarrow> obj \<Rightarrow> ctx \<Rightarrow> create_env \<Rightarrow> unit io" where
  "flight_create lib self c env =
     (case snd (flight_create_body lib self c env) of
        Inr u \<Rightarrow> flight_create_body lib self c env
      | Inl x \<Rightarrow>
          if x = CancelledError then (fst (flight_create_body lib self c env), Inr ())
          else (fst (flight_create_body lib self c env) @ [CtxSend (ErrorEmbed x)], Inr ()))"

subsection \<open>flight_start and the delayed task\<close>

record start_env =
  se_fetch :: "event http"
  se_now :: int
  se_channel :: bool
  se_log_channel :: bool

text \<open>\<^verbatim>\<open>ev.get("entity_metadata", {}).get("location", "")\<close>.\<close>

definition event_location :: "event \<Rightarrow> exc + string option" where
  "event_location ev =
     (case dict_get (ev_entity_metadata ev) \<lparr>md_location = Absent\<rparr> of
        None \<Rightarrow> Inl AttributeError
      | Some md \<Rightarrow> Inr (dict_get (md_location md) ''''))"

text \<open>\<^verbatim>\<open>ev.get("description", "").strip()\<close>.\<close>

definition event_text :: "event \<Rightarrow> exc + string" where
  "event_text ev =
     (case dict_get (ev_description ev) '''' of
        None \<Rightarrow> Inl AttributeError
      | Some d \<Rightarrow> Inr (strip d))"

definition opt_str :: "string option \<Rightarrow> string" where
  "opt_str v = (case v of None \<Rightarrow> ''None'' | Some s \<Rightarrow> s)"

definition open_message :: "string \<Rightarrow> string \<Rightarrow> string \<Rightarrow> int \<Rightarrow> string option \<Rightarrow> string" where
  "open_message departure arrival flight_number minutes_left roblox_link =
     ''<:Plane:1379811896106156052> **Check-in Now Open**\<newline>''
     @ ''-# '' @ departure @ ''\<newline>\<newline>''
     @ ''<:Dash:1379811908886204567> **-**\<newline>''
     @ ''> Attention all passengers flying to **'' @ arrival @ ''** on flight **''
     @ flight_number @ ''**, check-in is now open and will close in **''
     @ str_int minutes_left @ '' minutes**. ''
     @ ''If you are in need of any assistance throughout your journey, please reach out to a member of staff! Have a good flight.\<newline>\<newline>''
     @ ''<:Link:1379811829076856842> '' @ opt_str roblox_link @ ''\<newline>\<newline>''
     @ ''|| @everyone @Operations Ping ||''"

definition closed_message :: "string \<Rightarrow> string \<Rightarrow> string \<Rightarrow> string" where
  "closed_message departure flight_number arrival =
     ''<:Lock:1379811903332679830> **Check-in Closed**\<newline>''
     @ ''-# '' @ departure @ ''\<newline>\<newline>''
     @ ''<:Dash:1379811908886204567> **-**\<newline>''
     @ ''> Check-in for flight **'' @ flight_number @ ''** to **'' @ arrival
     @ ''** has now been closed. If you have missed your flight, please attend the next one!\<newline>\<newline>''
     @ ''-# <:Tail:1379811826467868804> **ETIHAD OPERATIONS**''"

definition parse_error_reply :: effect where
  "parse_error_reply =
     CtxReply (Embed ''Error'' (Some ''Failed to parse event description for flight info.'')
       (Some red) [])"

definition flight_start :: "pylib \<Rightarrow> obj \<Rightarrow> ctx \<Rightarrow> string option \<Rightarrow> start_env \<Rightarrow> unit io" where
  "flight_start lib self c link env =
     seq (attr self ''REQUIRED_ROLE_ID'') (\<lambda>role.
     if \<not> has_role role c then emit no_permission
     else if link = None \<or> link = Some []
     then emit (CtxReply (Embed ''Error'' (Some ''Provide an event link!'') (Some red) []))
     else
     seq (attr self ''GUILD_ID'') (\<lambda>guild.
     seq (attr self ''TOKEN'') (\<lambda>token.
     seq (request
            (HttpGet (events_url guild @ ''/'' @ event_id_of (the link))
               [(''Authorization'', ''Bot '' @ py_str token)])
            (se_fetch env)) (\<lambda>(status, ev).
     if status \<noteq> 200
     then emit (CtxReply (Embed ''Error'' (Some ''Invalid link or event!'') (Some red) []))
     else
     seq (lift (event_location ev)) (\<lambda>roblox_link.
     seq (lift (event_text ev)) (\<lambda>description.
     case parse_description description of
       None \<Rightarrow> emit parse_error_reply
     | Some (flight_number, departure, arrival) \<Rightarrow>
     seq (lift (lib_fromisoformat lib (replace_Z (ev_scheduled_start_time ev)))) (\<lambda>start_time.
     seq (lift (dt_plus start_time (minutes 15))) (\<lambda>lock_time.
     seq (lift (dt_minus lock_time (Aware (se_now env)))) (\<lambda>delta.
     seq (attr self ''ANNOUNCEMENT_CHANNEL_ID'') (\<lambda>chan.
     if \<not> se_channel env
     then emit (CtxReply (Embed ''Error'' (Some ''Announcement channel not found.'')
                  (Some red) []))
     else
     seq (emit (ChannelSend chan
            (Text (open_message departure arrival flight_number
                     (minutes_until_lock delta) roblox_link)))) (\<lambda>_.
     seq (emit (CreateTask
            \<lparr>dl_lock_time = lock_time, dl_channel = chan, dl_departure = departure,
             dl_flight_number = flight_number, dl_arrival = arrival\<rparr>)) (\<lambda>_.
     seq (emit (CtxReply (Embed ''Flight Started''
            (Some (''Flight '' @ [CHR 0x27] @ ev_name ev @ [CHR 0x27] @ '' started.''))
            (Some green) []))) (\<lambda>_.
     seq (attr self ''LOGGING_CHANNEL_ID'') (\<lambda>log_id.
     if se_log_channel env
     then emit (ChannelSend log_id
            (Embed ''Logging'' None (Some grey)
               [(''Start Flight'', cx_author c @ '' started '' @ ev_name ev)]))
     else ret ()))))))))))))))"

text \<open>
  The coroutine \<^verbatim>\<open>send_checkin_closed\<close>, run by the event loop after \<^verbatim>\<open>create_task\<close>.
  It reads the clock itself; \<open>tk_delete\<close> is what \<^verbatim>\<open>msg.delete()\<close> raises, if anything
  (\<open>HTTPException\<close> stands for \<^verbatim>\<open>discord.HTTPException\<close> and its subclasses, such as
  \<^verbatim>\<open>NotFound\<close>). \<open>Sleep x\<close> records the argument given to \<^verbatim>\<open>asyncio.sleep\<close>.
\<close>

record task_env =
  tk_now :: int
  tk_delete :: "exc option"

definition send_checkin_closed :: "delayed \<Rightarrow> task_env \<Rightarrow> unit io" where
  "send_checkin_closed task env =
     seq (lift (dt_minus (dl_lock_time task) (Aware (tk_now env)))) (\<lambda>delta.
     seq (emit (Sleep (total_seconds delta))) (\<lambda>_.
     seq (emit MessageDelete) (\<lambda>_.
     seq (case tk_delete env of
            None \<Rightarrow> ret ()
          | Some x \<Rightarrow> if x = HTTPException then ret () else raise x) (\<lambda>_.
     emit (ChannelSend (dl_channel task)
       (Text (closed_message (dl_departure task) (dl_flight_number task)
                (dl_arrival task))))))))"

text \<open>
  \<^verbatim>\<open>asyncio.sleep(delay)\<close> belongs to Python's library: for \<^verbatim>\<open>delay <= 0\<close> it yields to
  the event loop once and returns, otherwise it returns after \<^verbatim>\<open>delay\<close> seconds. This
  is the time it waits.
\<close>

definition asyncio_sleep_wait :: "rat \<Rightarrow> rat" where
  "asyncio_sleep_wait delay = (if delay \<le> 0 then 0 else delay)"

subsection \<open>flight_cancel\<close>

record cancel_env =
  ca_delete :: "unit http"
  ca_log_channel :: bool

definition flight_cancel :: "obj \<Rightarrow> ctx \<Rightarrow> string option \<Rightarrow> cancel_env \<Rightarrow> unit io" where
  "flight_cancel self c flight_id env =
     seq (attr self ''REQUIRED_ROLE_ID'') (\<lambda>role.
     if \<not> has_role role c then emit no_permission
     else if flight_id = None \<or> flight_id = Some []
     then emit (CtxReply (Embed ''Error'' (Some ''Provide a flight ID!'') (Some red) []))
     else
     seq (attr self ''GUILD_ID'') (\<lambda>guild.
     seq (attr self ''TOKEN'') (\<lambda>token.
     seq (request
            (HttpDelete (events_url guild @ ''/'' @ the flight_id)
               [(''Authorization'', ''Bot '' @ py_str token)])
            (ca_delete env)) (\<lambda>(status, _).
     if status = 204
     then
       seq (emit (CtxReply (Embed ''Success''
              (Some (''Flight '' @ the flight_id @ '' canceled.'')) (Some green) []))) (\<lambda>_.
       seq (attr self ''LOGGING_CHANNEL_ID'') (\<lambda>log_id.
       if ca_log_channel env
       then emit (ChannelSend log_id
              (Embed ''Logging'' None (Some grey)
                 [(''Cancel Flight'', cx_author c @ '' canceled flight '' @ the flight_id)]))
       else ret ()))
     else emit (CtxReply (Embed ''Error''
                  (Some (''Failed (status '' @ str_int status @ '')'')) (Some red) []))))))"

text \<open>Whether an effect is a request to Discord's REST interface.\<close>

fun is_http :: "effect \<Rightarrow> bool" where
  "is_http (HttpGet _ _) = True"
| "is_http (HttpPatch _ _ _) = True"
| "is_http (HttpPost _ _ _) = True"
| "is_http (HttpDelete _ _) = True"
| "is_http _ = False"

section \<open>Sample data\<close>

text \<open>
  An instance on which the configuration is present, as it would be had the constructor
  stored it: the identifiers that are compared with role and channel identifiers are
  integers, those that are only printed into an address are strings.
\<close>

definition configured :: obj where
  "configured =
     (fst (init (PStr ''token'')))
       (''GUILD_ID'' \<mapsto> PStr ''1288926604415733854'',
        ''REQUIRED_ROLE_ID'' \<mapsto> PInt 1288926707285495941,
        ''ANNOUNCEMENT_CHANNEL_ID'' \<mapsto> PInt 1290777608782483640,
        ''WEBHOOK_URL'' \<mapsto> PStr ''https://discord.com/api/webhooks/1290778044948283483/'',
        ''WEBHOOK_MESSAGE_ID'' \<mapsto> PStr ''1290778370749104263'',
        ''LOGGING_CHANNEL_ID'' \<mapsto> PInt 1288927464080543806)"

definition staff :: ctx where
  "staff = \<lparr>cx_author = ''pilot'', cx_roles = [1288926707285495941]\<rparr>"

text \<open>Three events used to run the definitions on concrete data.\<close>

definition event_a :: event where
  "event_a =
     \<lparr>ev_name = ''EA301 | Edinburgh - Madeira'',
      ev_description = Val ''first'',
      ev_scheduled_start_time = ''2030-01-01T10:00:00Z'',
      ev_entity_metadata = Val \<lparr>md_location = Val ''https://example.org/game''\<rparr>\<rparr>"

definition event_b :: event where
  "event_b =
     \<lparr>ev_name = ''EA302 | Madeira - Edinburgh'',
      ev_description = Absent,
      ev_scheduled_start_time = ''2030-01-01T12:00:00Z'',
      ev_entity_metadata = Absent\<rparr>"

definition event_c :: event where
  "event_c =
     \<lparr>ev_name = ''EA303 | Edinburgh - Abu Dhabi'',
      ev_description = Null,
      ev_scheduled_start_time = ''2030-01-02T09:30:00Z'',
      ev_entity_metadata = Null\<rparr>"

text \<open>A tick whose fetch is answered with status 404.\<close>

definition failed_tick :: tick_env where
  "failed_tick =
     \<lparr>te_fetch = HttpResponse 404 [],
      te_utcnow = (\<lambda>i. 1767225600000000),
      te_patch = HttpResponse 204 (),
      te_log_channel = True\<rparr>"

text \<open>A call of \<^verbatim>\<open>flight_start\<close> for an event whose description is not the template.\<close>

definition foreign_start :: start_env where
  "foreign_start =
     \<lparr>se_fetch = HttpResponse 200 event_a,
      se_now = 1767225600000000,
      se_channel = True,
      se_log_channel = True\<rparr>"

text \<open>
  A call of \<^verbatim>\<open>flight_start\<close> for an event held in a voice channel: its description is
  free text and its \<^verbatim>\<open>entity_metadata\<close> is JSON \<^verbatim>\<open>null\<close>. A second call, for an event with
  a location whose \<^verbatim>\<open>description\<close> is JSON \<^verbatim>\<open>null\<close>.
\<close>

definition voice_event :: event where
  "voice_event =
     \<lparr>ev_name = ''Staff meeting'',
      ev_description = Val ''Come and chat'',
      ev_scheduled_start_time = ''2026-01-01T00:20:00Z'',
      ev_entity_metadata = Null\<rparr>"

definition voice_start :: start_env where
  "voice_start =
     \<lparr>se_fetch = HttpResponse 200 voice_event,
      se_now = 1767225600000000,
      se_channel = True,
      se_log_channel = True\<rparr>"

definition silent_event :: event where
  "silent_event =
     \<lparr>ev_name = ''EA304 | Edinburgh - Madeira'',
      ev_description = Null,
      ev_scheduled_start_time = ''2026-01-01T00:20:00Z'',
      ev_entity_metadata = Val \<lparr>md_location = Val ''https://example.org/game''\<rparr>\<rparr>"

definition silent_start :: start_env where
  "silent_start =
     \<lparr>se_fetch = HttpResponse 200 silent_event,
      se_now = 1767225600000000,
      se_channel = True,
      se_log_channel = True\<rparr>"

text \<open>The answers of a user who creates flight EA301.\<close>

definition booking :: create_env where
  "booking =
     \<lparr>ce_flight_number = Reply ''EA301'',
      ce_flight_time = Reply ''1727780400'',
      ce_aircraft_type = Reply ''A320neo'',
      ce_departure = Reply ''Edinburgh'',
      ce_arrival = Reply ''Madeira'',
      ce_roblox_link = Reply ''https://example.org/game'',
      ce_post = HttpResponse 201 (),
      ce_log_channel = True\<rparr>"

text \<open>The payload that \<^verbatim>\<open>flight_create\<close> posts for these answers.\<close>

definition booking_payload :: payload where
  "booking_payload =
     \<lparr>pl_name = ''EA301 | Edinburgh - Madeira'',
      pl_description = creation_description ''EA301'' ''Edinburgh'' ''Madeira'' ''A320neo'',
      pl_scheduled_start_time = fixed_isoformat (Naive 1727780400000000),
      pl_scheduled_end_time = fixed_isoformat (Naive 1727783100000000),
      pl_privacy_level = 2,
      pl_entity_type = 3,
      pl_location = ''https://example.org/game''\<rparr>"

text \<open>
  An event made by \<^verbatim>\<open>flight_create\<close> that starts at 2026-01-01T00:20:00Z, a call of
  \<^verbatim>\<open>flight_start\<close> for it at 00:00:00Z, and the task this call creates, whose lock time
  is 00:35:00Z. The task is run at the lock time with a delete that fails, one minute
  late, and with a connection that breaks during the delete.
\<close>

definition event_d :: event where
  "event_d =
     \<lparr>ev_name = ''EA301 | Edinburgh - Madeira'',
      ev_description = Val (creation_description ''EA301'' ''Edinburgh'' ''Madeira'' ''A320neo''),
      ev_scheduled_start_time = ''2026-01-01T00:20:00Z'',
      ev_entity_metadata = Val \<lparr>md_location = Val ''https://example.org/game''\<rparr>\<rparr>"

definition boarding_start :: start_env where
  "boarding_start =
     \<lparr>se_fetch = HttpResponse 200 event_d,
      se_now = 1767225600000000,
      se_channel = True,
      se_log_channel = True\<rparr>"

definition boarding_task :: delayed where
  "boarding_task =
     \<lparr>dl_lock_time = Aware 1767227700000000,
      dl_channel = PInt 1290777608782483640,
      dl_departure = ''Edinburgh'',
      dl_flight_number = ''EA301'',
      dl_arrival = ''Madeira''\<rparr>"

definition already_deleted :: task_env where
  "already_deleted = \<lparr>tk_now = 1767227700000000, tk_delete = Some HTTPException\<rparr>"

definition one_minute_late :: task_env where
  "one_minute_late = \<lparr>tk_now = 1767227760000000, tk_delete = None\<rparr>"

definition broken_connection :: task_env where
  "broken_connection = \<lparr>tk_now = 1767227700000000, tk_delete = Some OSError\<rparr>"

text \<open>
  Two events one half second apart, the later one written with a fraction of a second.
\<close>

definition flight_whole :: event where
  "flight_whole =
     \<lparr>ev_name = ''EA401 | Edinburgh - Madeira'',
      ev_description = Absent,
      ev_scheduled_start_time = ''2030-01-01T00:00:00Z'',
      ev_entity_metadata = Absent\<rparr>"

definition flight_half :: event where
  "flight_half =
     \<lparr>ev_name = ''EA402 | Madeira - Edinburgh'',
      ev_description = Absent,
      ev_scheduled_start_time = ''2030-01-01T00:00:00.500000Z'',
      ev_entity_metadata = Absent\<rparr>"

text \<open>The start times of the sample events, as \<^verbatim>\<open>fromisoformat\<close> reads them.\<close>

definition sample_start :: "event \<Rightarrow> int" where
  "sample_start e =
     (case fixed_fromisoformat (butlast (ev_scheduled_start_time e)) of
        Inr (Naive t) \<Rightarrow> t
      | _ \<Rightarrow> 0)"

definition flight_past :: event where
  "flight_past =
     \<lparr>ev_name = ''EA300 | Edinburgh - Madeira'',
      ev_description = Absent,
      ev_scheduled_start_time = ''2025-12-31T23:55:00Z'',
      ev_entity_metadata = Absent\<rparr>"

text \<open>A clock that reads 2026-01-01T00:00:00 at every test.\<close>

definition new_year :: "nat \<Rightarrow> int" where
  "new_year i = 1767225600000000"

section \<open>Properties\<close>

text \<open>
  Claim C6. The rendering of the filtered and sorted list is the fixed placeholder when
  the list is empty; otherwise its fields are the summaries of exactly the first
  \<open>min (length upcoming) 2\<close> items, in order; in both cases the number of rendered fields
  is at most 2, whatever the length of the list.
\<close>

theorem render_page_size:
  "(upcoming = [] \<longrightarrow> render upcoming = no_flights_embed) \<and>
   (upcoming \<noteq> [] \<longrightarrow>
      em_fields (render upcoming) = Some (map summary_field (take (min (length upcoming) 2) upcoming)) \<and>
      field_count (render upcoming) = min (length upcoming) 2) \<and>
   field_count (render upcoming) \<le> 2"
  by (simp add: render_def field_count_def no_flights_embed_def min_def)

theorem render_page_size_witness:
  "[event_a, event_b, event_c] \<noteq> [] \<and>
   em_fields (render [event_a, event_b, event_c]) =
     Some [summary_field event_a, summary_field event_b] \<and>
   field_count (render [event_a, event_b, event_c]) = 2 \<and>
   render [] = no_flights_embed"
  using render_page_size [of "[event_a, event_b, event_c]"] render_page_size [of "[]"]
  by simp

subsection \<open>Sequencing\<close>

lemma seq_lift_Inl: "seq (lift (Inl x)) f = ([], Inl x)"
  by (simp add: seq_def lift_def)

lemma seq_lift_Inr: "seq (lift (Inr v)) f = f v"
  by (simp add: seq_def lift_def)

lemma seq_emit: "seq (emit e) f = (e # fst (f ()), snd (f ()))"
  by (simp add: seq_def emit_def)

lemma seq_ret: "seq (ret v) f = f v"
  by (simp add: seq_def ret_def)

lemma seq_raise: "seq (raise x) f = ([], Inl x)"
  by (simp add: seq_def raise_def)

lemma seq_request_response:
  "seq (request e (HttpResponse status body)) f =
     (e # fst (f (status, body)), snd (f (status, body)))"
  by (simp add: seq_def request_def)

lemma seq_request_raises: "seq (request e (HttpRaises x)) f = ([e], Inl x)"
  by (simp add: seq_def request_def)

lemmas seq_simps =
  seq_lift_Inl seq_lift_Inr seq_emit seq_ret seq_raise seq_request_response seq_request_raises

subsection \<open>The configuration attributes\<close>

lemma init_getattr:
  "getattr (fst (init token)) a =
     (if a = ''TOKEN'' then Inr token else if a = ''bot'' then Inr PBot else Inl AttributeError)"
  by (simp add: init_def getattr_def Let_def)

lemma configured_getattr:
  "getattr configured ''TOKEN'' = Inr (PStr ''token'')"
  "getattr configured ''GUILD_ID'' = Inr (PStr ''1288926604415733854'')"
  "getattr configured ''REQUIRED_ROLE_ID'' = Inr (PInt 1288926707285495941)"
  "getattr configured ''ANNOUNCEMENT_CHANNEL_ID'' = Inr (PInt 1290777608782483640)"
  "getattr configured ''LOGGING_CHANNEL_ID'' = Inr (PInt 1288927464080543806)"
  by (simp_all add: configured_def getattr_def init_def Let_def)

lemma staff_has_role: "has_role (PInt 1288926707285495941) staff"
  by (simp add: has_role_def staff_def)

text \<open>
  Claim C1. The constructor leaves none of \<open>GUILD_ID\<close>, \<open>REQUIRED_ROLE_ID\<close>,
  \<open>ANNOUNCEMENT_CHANNEL_ID\<close>, \<open>WEBHOOK_URL\<close>, \<open>WEBHOOK_MESSAGE_ID\<close>, \<open>LOGGING_CHANNEL_ID\<close>
  on the instance: reading any of them raises \<open>AttributeError\<close>. On an instance as the
  constructor leaves it, \<open>update_webhook\<close>, \<open>flight_start\<close> and \<open>flight_cancel\<close> raise
  \<open>AttributeError\<close> before any effect, and \<open>flight_create\<close> only reports that error to the
  user; none of them issues a request, whatever the token, the caller and the
  environment.
\<close>

theorem config_never_bound:
  "map (getattr (fst (init token))) config_names = replicate 6 (Inl AttributeError) \<and>
   update_webhook lib (fst (init token)) tick = ([], Inl AttributeError) \<and>
   flight_create lib (fst (init token)) c cenv =
     ([CtxSend (ErrorEmbed AttributeError)], Inr ()) \<and>
   flight_start lib (fst (init token)) c link senv = ([], Inl AttributeError) \<and>
   flight_cancel (fst (init token)) c flight_id caenv = ([], Inl AttributeError)"
proof -
  have names: "map (getattr (fst (init token))) config_names = replicate 6 (Inl AttributeError)"
    by (simp add: init_getattr config_names_def numeral_eq_Suc)
  have tick: "update_webhook lib (fst (init token)) tick = ([], Inl AttributeError)"
    by (simp add: update_webhook_def attr_def init_getattr seq_simps)
  have body: "flight_create_body lib (fst (init token)) c cenv = ([], Inl AttributeError)"
    by (simp add: flight_create_body_def attr_def init_getattr seq_simps)
  have create:
    "flight_create lib (fst (init token)) c cenv = ([CtxSend (ErrorEmbed AttributeError)], Inr ())"
    by (simp add: flight_create_def body)
  have start: "flight_start lib (fst (init token)) c link senv = ([], Inl AttributeError)"
    by (simp add: flight_start_def attr_def init_getattr seq_simps)
  have cancel: "flight_cancel (fst (init token)) c flight_id caenv = ([], Inl AttributeError)"
    by (simp add: flight_cancel_def attr_def init_getattr seq_simps)
  from names tick create start cancel show ?thesis by simp
qed

theorem config_never_bound_witness:
  "update_webhook fixed_lib (fst (init (PStr ''token''))) failed_tick = ([], Inl AttributeError) \<and>
   flight_start fixed_lib (fst (init (PStr ''token''))) staff (Some ''1299'') foreign_start =
     ([], Inl AttributeError) \<and>
   \<not> (\<exists>e \<in> set (fst (flight_create fixed_lib (fst (init (PStr ''token''))) staff booking)).
        is_http e)"
  using config_never_bound
    [of "PStr ''token''" fixed_lib failed_tick staff booking "Some ''1299''" foreign_start]
  by simp

text \<open>
  Claim C7. In a tick that reaches its fetch (the token and the guild identifier are on
  the instance) and is answered with a status other than 200, the trace is the request
  and one warning, the tick returns normally, and the summary message is not patched.
\<close>

theorem fetch_failure_is_soft:
  assumes "getattr self ''TOKEN'' = Inr token"
    and "getattr self ''GUILD_ID'' = Inr guild"
    and "te_fetch env = HttpResponse status events"
    and "status \<noteq> 200"
  shows "update_webhook lib self env =
           ([HttpGet (events_url guild)
               [(''Authorization'', ''Bot '' @ py_str token),
                (''Content-Type'', ''application/json'')],
             LogWarning (''Failed to fetch scheduled events, status '' @ str_int status)],
            Inr ()) \<and>
         \<not> (\<exists>url em hs. HttpPatch url em hs \<in> set (fst (update_webhook lib self env)))"
  using assms by (simp add: update_webhook_def attr_def seq_simps emit_def)

theorem fetch_failure_is_soft_witness:
  "getattr configured ''TOKEN'' = Inr (PStr ''token'') \<and>
   getattr configured ''GUILD_ID'' = Inr (PStr ''1288926604415733854'') \<and>
   te_fetch failed_tick = HttpResponse 404 [] \<and> (404 :: int) \<noteq> 200 \<and>
   snd (update_webhook fixed_lib configured failed_tick) = Inr () \<and>
   length (fst (update_webhook fixed_lib configured failed_tick)) = 2"
  using fetch_failure_is_soft
    [of configured "PStr ''token''" "PStr ''1288926604415733854''" failed_tick 404 "[]" fixed_lib]
  by (simp add: configured_getattr failed_tick_def)

subsection \<open>A description that is not the template\<close>

text \<open>
  Lines 190 and 191 read the location and the description of the fetched event before
  the pattern is tried. When both reads succeed (each of \<^verbatim>\<open>entity_metadata\<close> and
  \<^verbatim>\<open>description\<close> is absent or holds a value) and the description does not match, the
  caller gets the parse-error reply, the command returns, nothing is sent to the
  announcement channel and no task is created.
\<close>

lemma unparsable_description_stops:
  assumes "getattr self ''REQUIRED_ROLE_ID'' = Inr role" and "has_role role c"
    and "link = Some l" and "l \<noteq> []"
    and "getattr self ''GUILD_ID'' = Inr guild" and "getattr self ''TOKEN'' = Inr token"
    and "se_fetch env = HttpResponse 200 ev"
    and "event_location ev = Inr roblox_link" and "event_text ev = Inr description"
    and "parse_description description = None"
  shows "flight_start lib self c link env =
           ([HttpGet (events_url guild @ ''/'' @ event_id_of l)
               [(''Authorization'', ''Bot '' @ py_str token)],
             parse_error_reply],
            Inr ()) \<and>
         \<not> (\<exists>chan m. ChannelSend chan m \<in> set (fst (flight_start lib self c link env))) \<and>
         \<not> (\<exists>task. CreateTask task \<in> set (fst (flight_start lib self c link env)))"
  using assms by (simp add: flight_start_def attr_def seq_simps emit_def parse_error_reply_def)

lemma parse_first: "parse_description ''first'' = None"
  by code_simp

lemma event_a_read:
  "event_location event_a = Inr (Some ''https://example.org/game'')"
  "event_text event_a = Inr ''first''"
  by (simp_all add: event_location_def event_text_def event_a_def dict_get_def strip_def
      is_space_def)

lemma unparsable_description_stops_witness:
  "getattr configured ''REQUIRED_ROLE_ID'' = Inr (PInt 1288926707285495941) \<and>
   has_role (PInt 1288926707285495941) staff \<and>
   se_fetch foreign_start = HttpResponse 200 event_a \<and>
   event_text event_a = Inr ''first'' \<and> parse_description ''first'' = None \<and>
   flight_start fixed_lib configured staff (Some ''1299'') foreign_start =
     ([HttpGet (events_url (PStr ''1288926604415733854'') @ ''/'' @ event_id_of ''1299'')
         [(''Authorization'', ''Bot '' @ py_str (PStr ''token''))],
       parse_error_reply],
      Inr ())"
  using unparsable_description_stops
    [of configured "PInt 1288926707285495941" staff "Some ''1299''" "''1299''"
        "PStr ''1288926604415733854''" "PStr ''token''" foreign_start event_a
        "Some ''https://example.org/game''" "''first''" fixed_lib]
  by (simp add: configured_getattr staff_has_role foreign_start_def event_a_read parse_first)

text \<open>
  \<^verbatim>\<open>ev.get("entity_metadata", {})\<close> and \<^verbatim>\<open>ev.get("description", "")\<close> give their defaults
  for an absent key only. When the key holds JSON \<^verbatim>\<open>null\<close> the result is \<^verbatim>\<open>None\<close>, the
  method call on it raises \<open>AttributeError\<close>, and \<^verbatim>\<open>flight_start\<close>, which has no
  \<^verbatim>\<open>try\<close>, lets the exception leave the command after the request, whatever the
  description is: there is no reply, no announcement and no task.
\<close>

lemma unreadable_event_raises:
  assumes "getattr self ''REQUIRED_ROLE_ID'' = Inr role" and "has_role role c"
    and "link = Some l" and "l \<noteq> []"
    and "getattr self ''GUILD_ID'' = Inr guild" and "getattr self ''TOKEN'' = Inr token"
    and "se_fetch env = HttpResponse 200 ev"
    and "ev_entity_metadata ev = Null \<or> ev_description ev = Null"
  shows "flight_start lib self c link env =
           ([HttpGet (events_url guild @ ''/'' @ event_id_of l)
               [(''Authorization'', ''Bot '' @ py_str token)]],
            Inl AttributeError)"
proof (cases "ev_entity_metadata ev = Null")
  case True
  then have "event_location ev = Inl AttributeError"
    by (simp add: event_location_def dict_get_def)
  with assms(1-7) show ?thesis
    by (simp add: flight_start_def attr_def seq_simps)
next
  case False
  with assms(8) have "ev_description ev = Null"
    by simp
  then have unread: "event_text ev = Inl AttributeError"
    by (simp add: event_text_def dict_get_def)
  from False obtain roblox_link where "event_location ev = Inr roblox_link"
    by (cases "ev_entity_metadata ev") (simp_all add: event_location_def dict_get_def)
  with unread assms(1-7) show ?thesis
    by (simp add: flight_start_def attr_def seq_simps)
qed

lemma parse_chat: "parse_description (strip ''Come and chat'') = None"
  by code_simp

lemma null_description_raises:
  "flight_start fixed_lib configured staff (Some ''1299'') silent_start =
     ([HttpGet (events_url (PStr ''1288926604415733854'') @ ''/'' @ event_id_of ''1299'')
         [(''Authorization'', ''Bot '' @ py_str (PStr ''token''))]],
      Inl AttributeError)"
  using unreadable_event_raises
    [of configured "PInt 1288926707285495941" staff "Some ''1299''" "''1299''"
        "PStr ''1288926604415733854''" "PStr ''token''" silent_start silent_event fixed_lib]
  by (simp add: configured_getattr staff_has_role silent_start_def silent_event_def)

text \<open>
  Claim C8. A call of \<open>flight_start\<close> whose fetched event has a description that does
  not match the pattern is to end with the parse-error reply to the caller, with no
  announcement and no task. For \<open>voice_event\<close>, fetched with status 200 by a caller who
  has the role, the description \<open>Come and chat\<close> does not match the pattern, and the call
  does not end that way: \<^verbatim>\<open>entity_metadata\<close> is \<^verbatim>\<open>null\<close>, line 190 raises \<open>AttributeError\<close>
  before the pattern is tried, the trace is the request alone, and the exception leaves
  the command. The parse-error reply is not sent; nor is an announcement, and no task
  is created.
\<close>

theorem null_metadata_skips_parse_error:
  "se_fetch voice_start = HttpResponse 200 voice_event \<and>
   ev_description voice_event = Val ''Come and chat'' \<and>
   ev_entity_metadata voice_event = Null \<and>
   parse_description (strip ''Come and chat'') = None \<and>
   flight_start fixed_lib configured staff (Some ''1299'') voice_start =
     ([HttpGet (events_url (PStr ''1288926604415733854'') @ ''/'' @ event_id_of ''1299'')
         [(''Authorization'', ''Bot '' @ py_str (PStr ''token''))]],
      Inl AttributeError) \<and>
   parse_error_reply \<notin> set (fst (flight_start fixed_lib configured staff (Some ''1299'')
     voice_start))"
  by (simp add: parse_chat flight_start_def attr_def configured_getattr staff_has_role seq_simps
      voice_start_def voice_event_def event_location_def dict_get_def parse_error_reply_def)

subsection \<open>Creating a flight\<close>

lemma in_seq:
  "e \<in> set (fst (seq m f)) \<longleftrightarrow>
     e \<in> set (fst m) \<or> (\<exists>v. snd m = Inr v \<and> e \<in> set (fst (f v)))"
  by (auto simp: seq_def split: sum.splits)

lemma seq_Inr: "seq (t, Inr v) f = (t @ fst (f v), snd (f v))"
  by (simp add: seq_def)

lemma seq_Inl: "seq (t, Inl x) f = (t, Inl x)"
  by (simp add: seq_def)

lemma ask_no_post: "HttpPost url p hs \<notin> set (fst (ask prompt a))"
  by (simp add: ask_def seq_simps raise_def ret_def split: answer.splits)

lemma ask_Inr: "snd (ask prompt a) = Inr v \<Longrightarrow> a = Reply v"
  by (simp add: ask_def seq_simps raise_def ret_def split: answer.splits if_splits)

lemma ask_reply: "lower s \<noteq> ''cancel'' \<Longrightarrow> ask prompt (Reply s) = ([CtxSend prompt], Inr s)"
  by (simp add: ask_def seq_simps ret_def)

lemma body_post:
  assumes "HttpPost url p hs \<in> set (fst (flight_create_body lib self c env))"
  shows "\<exists>raw ts start end_time.
           ce_flight_time env = Reply raw \<and> lib_int lib raw = Inr ts \<and>
           utcfromtimestamp ts = Inr start \<and>
           dt_plus start (minutes 45) = Inr end_time \<and>
           pl_scheduled_start_time p = lib_isoformat lib start \<and>
           pl_scheduled_end_time p = lib_isoformat lib end_time"
  using assms unfolding flight_create_body_def
  by (auto simp: in_seq attr_def lift_def ask_no_post emit_def ret_def request_def no_permission_def
      split: if_splits http.splits dest!: ask_Inr)

lemma fst_flight_create:
  "set (fst (flight_create lib self c env)) \<subseteq>
     set (fst (flight_create_body lib self c env)) \<union> {e. \<exists>x. e = CtxSend (ErrorEmbed x)}"
  by (auto simp: flight_create_def split: sum.splits if_splits)

text \<open>
  Claim C10. Whenever \<open>flight_create\<close> posts a payload, the answer to the second question
  was read by \<^verbatim>\<open>int\<close> as some \<open>ts\<close>, the start time of the payload is the text of
  \<^verbatim>\<open>utcfromtimestamp(ts)\<close> and the end time is the text of that datetime plus 45
  minutes.
\<close>

theorem scheduled_end_is_start_plus_45:
  assumes "HttpPost url p hs \<in> set (fst (flight_create lib self c env))"
  shows "\<exists>raw ts.
           ce_flight_time env = Reply raw \<and> lib_int lib raw = Inr ts \<and>
           pl_scheduled_start_time p = lib_isoformat lib (Naive (ts * 1000000)) \<and>
           pl_scheduled_end_time p = lib_isoformat lib (Naive (ts * 1000000 + minutes 45))"
proof -
  from assms fst_flight_create [of lib self c env]
  have "HttpPost url p hs \<in> set (fst (flight_create_body lib self c env))"
    by auto
  from body_post [OF this] obtain raw ts start end_time where
    raw: "ce_flight_time env = Reply raw" "lib_int lib raw = Inr ts" and
    start: "utcfromtimestamp ts = Inr start" and
    fin: "dt_plus start (minutes 45) = Inr end_time" and
    p: "pl_scheduled_start_time p = lib_isoformat lib start"
       "pl_scheduled_end_time p = lib_isoformat lib end_time"
    by blast
  from start have s: "start = Naive (ts * 1000000)"
    by (simp add: utcfromtimestamp_def split: if_splits)
  from fin have "end_time = Naive (ts * 1000000 + minutes 45)"
    unfolding s by (simp split: if_splits)
  with raw p s show ?thesis by simp
qed

lemma not_cancel:
  "lower ''EA301'' \<noteq> ''cancel''" "lower ''1727780400'' \<noteq> ''cancel''"
  "lower ''A320neo'' \<noteq> ''cancel''" "lower ''Edinburgh'' \<noteq> ''cancel''"
  "lower ''Madeira'' \<noteq> ''cancel''" "lower ''https://example.org/game'' \<noteq> ''cancel''"
  by (simp_all add: lower_def)

lemma fixed_int_sample: "fixed_int ''1727780400'' = Inr 1727780400"
  by code_simp

lemma booking_body:
  "flight_create_body fixed_lib configured staff booking =
     ([CtxSend (Embed ''Flight Number'' (Some ''Enter the flight number (e.g., EA301).'') None []),
       CtxSend (Embed ''Flight Time''
                 (Some ''Enter the flight time as a Unix timestamp (e.g., 1727780400).'') None []),
       CtxSend (Embed ''Aircraft Type'' (Some ''Enter the aircraft type (e.g., A320neo).'') None []),
       CtxSend (Embed ''Departure'' (Some ''Enter the departure airport (e.g., Edinburgh).'') None []),
       CtxSend (Embed ''Arrival'' (Some ''Enter the arrival airport (e.g., Madeira).'') None []),
       CtxSend (Embed ''Roblox Link'' (Some ''Enter the Roblox game link.'') None []),
       HttpPost (events_url (PStr ''1288926604415733854'')) booking_payload
         [(''Authorization'', ''Bot token''), (''Content-Type'', ''application/json'')],
       CtxSend (Embed created_title None (Some green) []),
       ChannelSend (PInt 1288927464080543806)
         (Embed ''Logging'' None (Some grey) [(''Create Flight'', ''pilot created flight EA301'')])],
      Inr ())"
  by (simp add: flight_create_body_def attr_def configured_getattr seq_simps seq_Inr seq_Inl
      staff_has_role booking_def ask_reply not_cancel fixed_lib_def fixed_int_sample
      utcfromtimestamp_def in_range_def datetime_min_def datetime_max_def minutes_def
      booking_payload_def staff_def has_role_def emit_def ret_def no_permission_def)


theorem scheduled_end_is_start_plus_45_witness:
  "HttpPost (events_url (PStr ''1288926604415733854'')) booking_payload
     [(''Authorization'', ''Bot token''), (''Content-Type'', ''application/json'')]
     \<in> set (fst (flight_create fixed_lib configured staff booking)) \<and>
   pl_scheduled_start_time booking_payload = fixed_isoformat (Naive (1727780400 * 1000000)) \<and>
   pl_scheduled_end_time booking_payload =
     fixed_isoformat (Naive (1727780400 * 1000000 + minutes 45))"
proof -
  have mem: "HttpPost (events_url (PStr ''1288926604415733854'')) booking_payload
     [(''Authorization'', ''Bot token''), (''Content-Type'', ''application/json'')]
     \<in> set (fst (flight_create fixed_lib configured staff booking))"
    by (simp add: flight_create_def booking_body)
  from scheduled_end_is_start_plus_45 [OF mem] obtain raw ts where
    raw: "ce_flight_time booking = Reply raw" and ts: "lib_int fixed_lib raw = Inr ts" and
    p: "pl_scheduled_start_time booking_payload = lib_isoformat fixed_lib (Naive (ts * 1000000))"
       "pl_scheduled_end_time booking_payload =
          lib_isoformat fixed_lib (Naive (ts * 1000000 + minutes 45))"
    by blast
  from raw have "raw = ''1727780400''"
    by (simp add: booking_def)
  with ts have "ts = 1727780400"
    by (simp add: fixed_lib_def fixed_int_sample)
  with p mem show ?thesis
    by (simp add: fixed_lib_def)
qed

subsection \<open>Rounding to binary64\<close>

lemma log2_floor_bounds:
  "1 \<le> n \<Longrightarrow> 0 \<le> log2_floor n \<and> 2 ^ nat (log2_floor n) \<le> n \<and> n < 2 * 2 ^ nat (log2_floor n)"
proof (induction n rule: log2_floor.induct)
  case (1 n)
  show ?case
  proof (cases "n < 2")
    case True
    with "1.prems" have "n = 1" by simp
    then show ?thesis by (simp add: log2_floor.simps [of 1])
  next
    case False
    then have half: "1 \<le> n div 2" by simp
    define L where "L = log2_floor (n div 2)"
    from "1.IH" [OF False half]
    have ih: "0 \<le> L" "2 ^ nat L \<le> n div 2" "n div 2 < 2 * 2 ^ nat L"
      by (simp_all add: L_def)
    have eq: "log2_floor n = L + 1"
      using False by (simp add: L_def log2_floor.simps [of n])
    have nat_eq: "nat (L + 1) = Suc (nat L)"
      using ih(1) by simp
    have a: "2 * 2 ^ nat L \<le> n"
      using ih(2) by linarith
    have b: "n < 2 * (2 * 2 ^ nat L)"
      using ih(3) by linarith
    from ih(1) a b show ?thesis
      unfolding eq nat_eq by simp
  qed
qed

lemma round_half_even_cases:
  "round_half_even y = \<lfloor>y\<rfloor> \<and> y - of_int \<lfloor>y\<rfloor> \<le> 1 / 2 \<or>
   round_half_even y = \<lfloor>y\<rfloor> + 1 \<and> 1 / 2 \<le> y - of_int \<lfloor>y\<rfloor>"
  by (auto simp: round_half_even_def Let_def)

lemma round_half_even_near: "\<bar>of_int (round_half_even y) - y\<bar> \<le> 1 / 2"
proof -
  have f: "of_int \<lfloor>y\<rfloor> \<le> y" "y < of_int \<lfloor>y\<rfloor> + 1"
    by linarith+
  from round_half_even_cases [of y] show ?thesis
  proof (elim disjE conjE)
    assume a: "round_half_even y = \<lfloor>y\<rfloor>" and b: "y - of_int \<lfloor>y\<rfloor> \<le> 1 / 2"
    from f b show ?thesis unfolding a by linarith
  next
    assume a: "round_half_even y = \<lfloor>y\<rfloor> + 1" and b: "1 / 2 \<le> y - of_int \<lfloor>y\<rfloor>"
    have c: "(of_int (round_half_even y) :: rat) = of_int \<lfloor>y\<rfloor> + 1"
      by (simp add: a)
    from f b show ?thesis unfolding c by linarith
  qed
qed

lemma round_half_even_floor: "\<lfloor>y\<rfloor> \<le> round_half_even y"
  using round_half_even_cases [of y] by auto

lemma powi_nat: "0 \<le> k \<Longrightarrow> (2::rat) powi k = 2 ^ nat k"
  by (simp add: power_int_def)

lemma powi_neg: "0 \<le> k \<Longrightarrow> (2::rat) powi (- k) = 1 / 2 ^ nat k"
  by (simp add: power_int_minus powi_nat field_simps)

lemma int_below: "m \<le> \<lfloor>z\<rfloor> \<Longrightarrow> (of_int m :: rat) \<le> z"
  by linarith

lemma int_above: "\<lfloor>z\<rfloor> < m \<Longrightarrow> (z :: rat) < of_int m"
  by linarith

lemma binade_bounds:
  assumes "0 < x"
  shows "2 powi binade x \<le> x \<and> x < 2 * 2 powi binade x"
proof (cases "1 \<le> x")
  case True
  then have n: "1 \<le> \<lfloor>x\<rfloor>" by simp
  define L where "L = log2_floor \<lfloor>x\<rfloor>"
  from log2_floor_bounds [OF n]
  have L: "0 \<le> L" "2 ^ nat L \<le> \<lfloor>x\<rfloor>" "\<lfloor>x\<rfloor> < 2 * 2 ^ nat L"
    by (simp_all add: L_def)
  have e: "binade x = L"
    using True by (simp add: binade_def L_def)
  have lo: "(2::rat) ^ nat L \<le> x"
    using int_below [OF L(2)] by simp
  have hi: "x < 2 * 2 ^ nat L"
    using int_above [OF L(3)] by simp
  from lo hi show ?thesis
    by (simp add: e powi_nat [OF L(1)])
next
  case False
  with assms have y: "1 < 1 / x" by simp
  then have n: "1 \<le> \<lfloor>1 / x\<rfloor>" by simp
  define j where "j = log2_floor \<lfloor>1 / x\<rfloor>"
  define P :: rat where "P = 2 ^ nat j"
  from log2_floor_bounds [OF n]
  have j: "0 \<le> j" "2 ^ nat j \<le> \<lfloor>1 / x\<rfloor>" "\<lfloor>1 / x\<rfloor> < 2 * 2 ^ nat j"
    by (simp_all add: j_def)
  have P: "0 < P" by (simp add: P_def)
  have "P \<le> 1 / x"
    using int_below [OF j(2)] by (simp add: P_def)
  with assms have lo: "x * P \<le> 1"
    by (simp add: field_simps)
  have "1 / x < 2 * P"
    using int_above [OF j(3)] by (simp add: P_def)
  with assms have hi: "1 < x * (2 * P)"
    by (simp add: field_simps)
  have pj: "(2::rat) powi j = P" "(2::rat) powi (- j) = 1 / P"
    by (simp_all add: powi_nat [OF j(1)] powi_neg [OF j(1)] P_def)
  have pj1: "(2::rat) powi (- j - 1) = 1 / (2 * P)"
    using powi_neg [of "j + 1"] j(1) by (simp add: P_def nat_add_distrib)
  show ?thesis
  proof (cases "1 \<le> x * P")
    case True
    then have e: "binade x = - j"
      using False by (simp add: binade_def j_def [symmetric] Let_def pj)
    from True lo P show ?thesis
      by (simp add: e pj field_simps)
  next
    case nle: False
    then have e: "binade x = - j - 1"
      using False by (simp add: binade_def j_def [symmetric] Let_def pj)
    from nle hi P show ?thesis
      by (simp add: e pj1 field_simps)
  qed
qed


lemma round_binary64_pos:
  "0 < x \<Longrightarrow>
   round_binary64 x = of_int (round_half_even (x / 2 powi (binade x - 52))) * 2 powi (binade x - 52)"
  by (simp add: round_binary64_def Let_def)

lemma round_binary64_minus: "round_binary64 (- x) = - round_binary64 x"
  by (simp add: round_binary64_def Let_def sgn_minus)

lemma round_binary64_nonneg: "0 \<le> x \<Longrightarrow> 0 \<le> round_binary64 x"
proof (cases "x = 0")
  case True
  then show ?thesis by (simp add: round_binary64_def)
next
  case False
  assume "0 \<le> x"
  with False have x: "0 < x" by simp
  define u :: rat where "u = 2 powi (binade x - 52)"
  have u: "0 < u" by (simp add: u_def)
  with x have "0 \<le> x / u" by simp
  then have "0 \<le> \<lfloor>x / u\<rfloor>" by simp
  with round_half_even_floor [of "x / u"] have "0 \<le> round_half_even (x / u)" by linarith
  then have "0 \<le> (of_int (round_half_even (x / u)) :: rat)" by simp
  with u show ?thesis
    by (simp add: round_binary64_pos [OF x] u_def [symmetric])
qed

lemma round_binary64_nonpos: "x \<le> 0 \<Longrightarrow> round_binary64 x \<le> 0"
  using round_binary64_nonneg [of "- x"] by (simp add: round_binary64_minus)

text \<open>The result differs from the exact value by at most half a unit in the last place.\<close>

lemma round_binary64_error:
  assumes "0 < x"
  shows "\<bar>round_binary64 x - x\<bar> \<le> x / 2 ^ 53"
proof -
  define e where "e = binade x"
  define u :: rat where "u = 2 powi (e - 52)"
  have u: "0 < u" by (simp add: u_def)
  have split: "(2::rat) powi e = u * 2 ^ 52"
    by (simp add: u_def power_int_diff)
  from binade_bounds [OF assms] have "2 powi e \<le> x" by (simp add: e_def)
  then have ux: "u * 2 ^ 52 \<le> x" by (simp only: split)
  define r :: rat where "r = of_int (round_half_even (x / u))"
  from round_half_even_near [of "x / u"] have "\<bar>r - x / u\<bar> \<le> 1 / 2"
    by (simp add: r_def)
  then have "\<bar>r - x / u\<bar> * u \<le> (1 / 2) * u"
    using u by (simp only: mult_le_cancel_right_pos)
  moreover have "\<bar>r - x / u\<bar> * u = \<bar>r * u - x\<bar>"
  proof -
    have "\<bar>r - x / u\<bar> * u = \<bar>r - x / u\<bar> * \<bar>u\<bar>" using u by simp
    also have "\<dots> = \<bar>(r - x / u) * u\<bar>" by (simp only: abs_mult)
    also have "(r - x / u) * u = r * u - x" using u by (simp add: field_simps)
    finally show ?thesis .
  qed
  ultimately have "\<bar>r * u - x\<bar> \<le> u / 2" by simp
  moreover from ux have "u / 2 \<le> x / 2 ^ 53" by simp
  ultimately have "\<bar>r * u - x\<bar> \<le> x / 2 ^ 53" by linarith
  then show ?thesis
    by (simp add: round_binary64_pos [OF assms] e_def [symmetric] u_def [symmetric]
        r_def [symmetric])
qed

text \<open>Rounding never crosses an integer of magnitude below \<open>2\<^sup>5\<^sup>3\<close>.\<close>

lemma round_binary64_above_int:
  assumes "0 < x" and "x < 2 ^ 53" and "of_int n \<le> x"
  shows "of_int n \<le> round_binary64 x"
proof -
  define e where "e = binade x"
  define u :: rat where "u = 2 powi (e - 52)"
  have u: "0 < u" by (simp add: u_def)
  from binade_bounds [OF assms(1)] have "2 powi e \<le> x" by (simp add: e_def)
  with assms(2) have "(2::rat) powi e < 2 powi 53" by simp
  then have "e < 53"
    using power_int_le_imp_less_exp [of "2::rat" e 53] by simp
  then have k: "0 \<le> 52 - e" by simp
  have inv: "u = 1 / 2 ^ nat (52 - e)"
    using powi_neg [OF k] by (simp add: u_def)
  have "(of_int (n * 2 ^ nat (52 - e)) :: rat) = of_int n / u"
    by (simp add: inv)
  also have "\<dots> \<le> x / u"
    using assms(3) u by (simp add: divide_right_mono)
  finally have "n * 2 ^ nat (52 - e) \<le> \<lfloor>x / u\<rfloor>"
    by (simp only: le_floor_iff)
  with round_half_even_floor [of "x / u"]
  have "n * 2 ^ nat (52 - e) \<le> round_half_even (x / u)" by linarith
  then have "(of_int (n * 2 ^ nat (52 - e)) :: rat) \<le> of_int (round_half_even (x / u))"
    by (simp only: of_int_le_iff)
  then have a: "(of_int (n * 2 ^ nat (52 - e)) :: rat) * u \<le> of_int (round_half_even (x / u)) * u"
    using u by (simp only: mult_le_cancel_right_pos)
  have b: "(of_int (n * 2 ^ nat (52 - e)) :: rat) * u = of_int n"
    by (simp add: inv)
  from a have "of_int n \<le> of_int (round_half_even (x / u)) * u"
    unfolding b .
  then show ?thesis
    unfolding round_binary64_pos [OF assms(1)] e_def [symmetric] u_def [symmetric] .
qed


lemma minutes_until_lock_nonneg: "0 \<le> minutes_until_lock delta"
  by (simp add: minutes_until_lock_def)

lemma total_seconds_nonpos: "delta \<le> 0 \<Longrightarrow> total_seconds delta \<le> 0"
  unfolding total_seconds_def truediv_def
  by (rule round_binary64_nonpos) (simp add: divide_nonpos_pos)

lemma minutes_until_lock_past:
  assumes "delta \<le> 0"
  shows "minutes_until_lock delta = 0"
proof -
  from total_seconds_nonpos [OF assms] have "total_seconds delta / 60 \<le> 0"
    by (simp add: divide_nonpos_pos)
  then have m: "truediv (total_seconds delta) 60 \<le> 0"
    unfolding truediv_def by (rule round_binary64_nonpos)
  then have "py_int (truediv (total_seconds delta) 60) \<le> 0"
    by (auto simp: py_int_def ceiling_le_zero)
  then show ?thesis
    by (simp add: minutes_until_lock_def)
qed

lemma minutes_until_lock_future:
  assumes pos: "0 < delta" and bound: "delta \<le> 4320000000000000"
  shows "minutes_until_lock delta = delta div 60000000"
proof -
  define q where "q = delta div 60000000"
  define d :: rat where "d = of_int delta"
  define s where "s = total_seconds delta"
  define m where "m = truediv s 60"
  have q0: "0 \<le> q" using pos by (simp add: q_def pos_imp_zdiv_nonneg_iff)
  have ql: "60000000 * q \<le> delta" and qu: "delta + 1 \<le> 60000000 * (q + 1)"
    unfolding q_def by presburger+
  have dpos: "0 < d" and dle: "d \<le> 4320000000000000"
    using pos bound by (simp_all add: d_def)
  have ql': "60000000 * of_int q \<le> d" and qu': "d + 1 \<le> 60000000 * (of_int q + 1)"
  proof -
    from ql have "(of_int (60000000 * q) :: rat) \<le> of_int delta"
      by (simp only: of_int_le_iff)
    then show "60000000 * of_int q \<le> d" by (simp add: d_def)
    from qu have "(of_int (delta + 1) :: rat) \<le> of_int (60000000 * (q + 1))"
      by (simp only: of_int_le_iff)
    then show "d + 1 \<le> 60000000 * (of_int q + 1)" by (simp add: d_def)
  qed
  have s_eq: "s = round_binary64 (d / 1000000)"
    by (simp add: s_def total_seconds_def truediv_def d_def)
  have x1: "0 < d / 1000000" "d / 1000000 < 2 ^ 53"
    using dpos dle by simp_all
  have "of_int (60 * q) \<le> d / 1000000"
    using ql' by simp
  from round_binary64_above_int [OF x1 this] have s_lo: "60 * of_int q \<le> s"
    by (simp add: s_eq)
  from round_binary64_error [OF x1(1)] have s_hi: "s \<le> d / 1000000 + d / 1000000 / 2 ^ 53"
    unfolding s_eq by linarith
  from round_binary64_error [OF x1(1)] have "d / 1000000 - d / 1000000 / 2 ^ 53 \<le> s"
    unfolding s_eq by linarith
  with dpos have spos: "0 < s" by simp
  have x2: "0 < s / 60" "s / 60 < 2 ^ 53"
    using spos s_hi dle by simp_all
  have m_eq: "m = round_binary64 (s / 60)"
    by (simp add: m_def truediv_def)
  have "of_int q \<le> s / 60"
    using s_lo by simp
  from round_binary64_above_int [OF x2 this] have m_lo: "of_int q \<le> m"
    by (simp add: m_eq)
  from round_binary64_error [OF x2(1)] have "m \<le> s / 60 + s / 60 / 2 ^ 53"
    unfolding m_eq by linarith
  with s_hi have "m \<le> (d / 1000000 + d / 1000000 / 2 ^ 53) / 60
                      + (d / 1000000 + d / 1000000 / 2 ^ 53) / 60 / 2 ^ 53"
    by simp
  with dle qu' have m_hi: "m < of_int q + 1"
    by simp
  from m_lo m_hi have "\<lfloor>m\<rfloor> = q"
    by (simp add: floor_unique)
  moreover from m_lo q0 have "0 \<le> m" by simp
  ultimately have "py_int m = q"
    by (simp add: py_int_def)
  with q0 show ?thesis
    by (simp add: minutes_until_lock_def m_def s_def q_def)
qed

text \<open>
  Claim C3, as amended. With \<open>lock_time = start_time + 15 minutes\<close> and
  \<open>delta = lock_time - now\<close>, the computed number of minutes is never negative, and it
  is \<open>max 0 \<lfloor>delta / 1 minute\<rfloor>\<close> whenever \<open>delta\<close> is at most 50000 days (which includes
  every lock time in the past). The quotient is computed in binary64: for a lock time
  some thousand years ahead the two divisions round up to the next whole minute.
\<close>

theorem minutes_until_lock_is_clamped_floor:
  assumes "dt_plus (Aware start) (minutes 15) = Inr lock_time"
    and "dt_minus lock_time (Aware now) = Inr delta"
  shows "delta = start + 900000000 - now \<and>
         0 \<le> minutes_until_lock delta \<and>
         (delta \<le> 4320000000000000 \<longrightarrow>
            minutes_until_lock delta = max 0 (delta div 60000000))"
proof -
  from assms(1) have "lock_time = Aware (start + 900000000)"
    by (simp add: minutes_def split: if_splits)
  with assms(2) have d: "delta = start + 900000000 - now"
    by simp
  have "minutes_until_lock delta = max 0 (delta div 60000000)"
    if "delta \<le> 4320000000000000"
  proof (cases "0 < delta")
    case True
    then have "0 \<le> delta div 60000000" by (simp add: pos_imp_zdiv_nonneg_iff)
    with minutes_until_lock_future [OF True that] show ?thesis by simp
  next
    case False
    then have "delta div 60000000 \<le> 0"
      by (simp add: div_nonpos_pos_le0)
    with False minutes_until_lock_past [of delta] show ?thesis by simp
  qed
  with d minutes_until_lock_nonneg show ?thesis by blast
qed

theorem minutes_until_lock_is_clamped_floor_witness:
  "dt_plus (Aware 1767226800000000) (minutes 15) = Inr (Aware 1767227700000000) \<and>
   dt_minus (Aware 1767227700000000) (Aware 1767225600000000) = Inr 2100000000 \<and>
   (2100000000 :: int) \<le> 4320000000000000 \<and>
   minutes_until_lock 2100000000 = 35"
proof -
  have a: "dt_plus (Aware 1767226800000000) (minutes 15) = Inr (Aware 1767227700000000)"
    by (simp add: minutes_def in_range_def datetime_min_def datetime_max_def)
  have b: "dt_minus (Aware 1767227700000000) (Aware 1767225600000000) = Inr 2100000000"
    by simp
  from minutes_until_lock_is_clamped_floor [OF a b] a b show ?thesis
    by simp
qed

text \<open>
  Claim C3 as stated fails: with \<open>now\<close> = 2026-01-01T00:00:00Z and a start time of
  8999-12-31T23:44:59.999999Z the lock time is one microsecond short of
  3667969440 minutes away; the floor is 3667969439 and the code computes 3667969440.
\<close>

theorem minutes_until_lock_rounds_up:
  "dt_plus (Aware 221845391099999999) (minutes 15) = Inr (Aware 221845391999999999) \<and>
   dt_minus (Aware 221845391999999999) (Aware 1767225600000000) = Inr 220078166399999999 \<and>
   minutes_until_lock 220078166399999999 = 3667969440 \<and>
   max 0 (220078166399999999 div 60000000) = (3667969439 :: int)"
proof -
  have a: "dt_plus (Aware 221845391099999999) (minutes 15) = Inr (Aware 221845391999999999)"
    by (simp add: minutes_def in_range_def datetime_min_def datetime_max_def)
  have b: "minutes_until_lock 220078166399999999 = 3667969440"
    by code_simp
  from a b show ?thesis by simp
qed

subsection \<open>The delayed task\<close>

lemma dt_minus_Aware: "dt_minus a (Aware b) = Inr d \<Longrightarrow> \<exists>t. a = Aware t \<and> d = t - b"
  by (cases a) auto

lemma start_task:
  assumes "CreateTask task \<in> set (fst (flight_start lib self c link env))"
  shows "\<exists>ev description start_time lock.
           se_fetch env = HttpResponse 200 ev \<and>
           event_text ev = Inr description \<and>
           parse_description description =
             Some (dl_flight_number task, dl_departure task, dl_arrival task) \<and>
           lib_fromisoformat lib (replace_Z (ev_scheduled_start_time ev)) = Inr start_time \<and>
           dt_plus start_time (minutes 15) = Inr (Aware lock) \<and>
           dl_lock_time task = Aware lock"
  using assms unfolding flight_start_def
  by (auto simp: in_seq attr_def lift_def emit_def ret_def request_def no_permission_def
      parse_error_reply_def
      split: if_splits http.splits option.splits prod.splits dest!: dt_minus_Aware)

lemma closed_after_delete:
  assumes "dl_lock_time task = Aware lock"
    and "tk_delete env = None \<or> tk_delete env = Some HTTPException"
  shows "send_checkin_closed task env =
           ([Sleep (total_seconds (lock - tk_now env)),
             MessageDelete,
             ChannelSend (dl_channel task)
               (Text (closed_message (dl_departure task) (dl_flight_number task)
                        (dl_arrival task)))],
            Inr ())"
  using assms by (auto simp: send_checkin_closed_def seq_simps seq_Inr seq_Inl emit_def ret_def)

lemma delete_error_propagates:
  assumes "dl_lock_time task = Aware lock"
    and "tk_delete env = Some x" and "x \<noteq> HTTPException"
  shows "send_checkin_closed task env =
           ([Sleep (total_seconds (lock - tk_now env)), MessageDelete], Inl x)"
  using assms by (auto simp: send_checkin_closed_def seq_simps seq_Inr seq_Inl emit_def ret_def raise_def)

text \<open>
  Claim C9, as amended. A task created by \<open>flight_start\<close> carries the three texts taken
  from the description of the fetched event and an aware lock time. When it runs and the
  delete succeeds or raises \<^verbatim>\<open>discord.HTTPException\<close> (or a subclass, as for a message
  already deleted), its effects are, in this order, the sleep until the lock time, the
  delete attempt, and the closed announcement built from those three texts, and it
  returns normally.
\<close>

theorem delayed_task_order:
  assumes "CreateTask task \<in> set (fst (flight_start lib self c link senv))"
    and "tk_delete env = None \<or> tk_delete env = Some HTTPException"
  shows "\<exists>ev description lock.
           se_fetch senv = HttpResponse 200 ev \<and>
           event_text ev = Inr description \<and>
           parse_description description =
             Some (dl_flight_number task, dl_departure task, dl_arrival task) \<and>
           dl_lock_time task = Aware lock \<and>
           send_checkin_closed task env =
             ([Sleep (total_seconds (lock - tk_now env)),
               MessageDelete,
               ChannelSend (dl_channel task)
                 (Text (closed_message (dl_departure task) (dl_flight_number task)
                          (dl_arrival task)))],
              Inr ())"
proof -
  from start_task [OF assms(1)] obtain ev description lock where
    "se_fetch senv = HttpResponse 200 ev" "event_text ev = Inr description"
    "parse_description description =
       Some (dl_flight_number task, dl_departure task, dl_arrival task)"
    "dl_lock_time task = Aware lock"
    by blast
  with closed_after_delete [OF this(4) assms(2)] show ?thesis by blast
qed

text \<open>
  Claim C4, as amended. When the lock time is at or before the instant at which the task
  reads the clock, the value given to \<^verbatim>\<open>asyncio.sleep\<close> is the difference in seconds as
  it is, zero or negative; \<^verbatim>\<open>asyncio.sleep\<close> waits zero seconds for such a value, and
  the task goes on to the delete attempt and, if the delete succeeds or raises
  \<^verbatim>\<open>HTTPException\<close>, to the closed announcement.
\<close>

theorem past_lock_time_fires_at_once:
  assumes "dl_lock_time task = Aware lock" and "lock \<le> tk_now env"
  shows "\<exists>rest.
           fst (send_checkin_closed task env) =
             Sleep (total_seconds (lock - tk_now env)) # MessageDelete # rest \<and>
           total_seconds (lock - tk_now env) \<le> 0 \<and>
           asyncio_sleep_wait (total_seconds (lock - tk_now env)) = 0 \<and>
           (tk_delete env = None \<or> tk_delete env = Some HTTPException \<longrightarrow>
              rest = [ChannelSend (dl_channel task)
                        (Text (closed_message (dl_departure task) (dl_flight_number task)
                                 (dl_arrival task)))] \<and>
              snd (send_checkin_closed task env) = Inr ())"
proof -
  from assms(2) have neg: "total_seconds (lock - tk_now env) \<le> 0"
    by (simp add: total_seconds_nonpos)
  then have wait: "asyncio_sleep_wait (total_seconds (lock - tk_now env)) = 0"
    by (simp add: asyncio_sleep_wait_def)
  show ?thesis
  proof (cases "tk_delete env = None \<or> tk_delete env = Some HTTPException")
    case True
    from closed_after_delete [OF assms(1) True] neg wait show ?thesis by simp
  next
    case False
    then obtain x where "tk_delete env = Some x" "x \<noteq> HTTPException" by auto
    from delete_error_propagates [OF assms(1) this] neg wait False show ?thesis by simp
  qed
qed


lemma event_d_read:
  "event_location event_d = Inr (Some ''https://example.org/game'')"
  "event_text event_d = Inr (creation_description ''EA301'' ''Edinburgh'' ''Madeira'' ''A320neo'')"
proof -
  show "event_location event_d = Inr (Some ''https://example.org/game'')"
    by (simp add: event_location_def event_d_def dict_get_def)
  have "strip (creation_description ''EA301'' ''Edinburgh'' ''Madeira'' ''A320neo'') =
          creation_description ''EA301'' ''Edinburgh'' ''Madeira'' ''A320neo''"
    by code_simp
  then show "event_text event_d =
      Inr (creation_description ''EA301'' ''Edinburgh'' ''Madeira'' ''A320neo'')"
    by (simp add: event_text_def event_d_def dict_get_def)
qed

lemma parse_sample:
  "parse_description (creation_description ''EA301'' ''Edinburgh'' ''Madeira'' ''A320neo'') =
     Some (''EA301'', ''Edinburgh'', ''Madeira'')"
  by code_simp

lemma start_sample:
  "fixed_fromisoformat (replace_Z ''2026-01-01T00:20:00Z'') = Inr (Aware 1767226800000000)"
  by code_simp

lemma event_d_fields:
  "ev_scheduled_start_time event_d = ''2026-01-01T00:20:00Z''"
  "ev_name event_d = ''EA301 | Edinburgh - Madeira''"
  by (simp_all add: event_d_def)

lemma boarding_created:
  "CreateTask boarding_task
     \<in> set (fst (flight_start fixed_lib configured staff
                    (Some ''https://discord.com/events/1288926604415733854/1299'')
                    boarding_start))"
  by (simp add: flight_start_def attr_def configured_getattr seq_simps seq_Inr seq_Inl
      staff_has_role boarding_start_def event_d_read parse_sample fixed_lib_def
      start_sample event_d_fields minutes_def in_range_def datetime_min_def
      datetime_max_def emit_def ret_def boarding_task_def)


theorem delayed_task_order_witness:
  "CreateTask boarding_task
     \<in> set (fst (flight_start fixed_lib configured staff
                    (Some ''https://discord.com/events/1288926604415733854/1299'')
                    boarding_start)) \<and>
   (tk_delete already_deleted = None \<or> tk_delete already_deleted = Some HTTPException) \<and>
   send_checkin_closed boarding_task already_deleted =
     ([Sleep (total_seconds (1767227700000000 - tk_now already_deleted)),
       MessageDelete,
       ChannelSend (PInt 1290777608782483640)
         (Text (closed_message ''Edinburgh'' ''EA301'' ''Madeira''))],
      Inr ())"
proof -
  have del: "tk_delete already_deleted = None \<or> tk_delete already_deleted = Some HTTPException"
    by (simp add: already_deleted_def)
  from delayed_task_order [OF boarding_created del] obtain lock where
    "dl_lock_time boarding_task = Aware lock"
    "send_checkin_closed boarding_task already_deleted =
       ([Sleep (total_seconds (lock - tk_now already_deleted)),
         MessageDelete,
         ChannelSend (dl_channel boarding_task)
           (Text (closed_message (dl_departure boarding_task) (dl_flight_number boarding_task)
                    (dl_arrival boarding_task)))],
        Inr ())"
    by blast
  then show ?thesis
    using boarding_created del by (simp add: boarding_task_def)
qed

text \<open>
  Claim C9 as stated fails for a delete error that is not an \<^verbatim>\<open>HTTPException\<close>: the
  handler is \<^verbatim>\<open>except discord.HTTPException\<close>, so an \<^verbatim>\<open>OSError\<close> raised while the
  request is sent leaves the task and the closed announcement is not sent.
\<close>

theorem delete_failure_not_always_ignored:
  "send_checkin_closed boarding_task broken_connection =
     ([Sleep (total_seconds (1767227700000000 - 1767227700000000)), MessageDelete],
      Inl OSError)"
  by (simp add: send_checkin_closed_def seq_simps seq_Inr seq_Inl emit_def ret_def raise_def
      boarding_task_def broken_connection_def)

theorem past_lock_time_fires_at_once_witness:
  "dl_lock_time boarding_task = Aware 1767227700000000 \<and>
   1767227700000000 \<le> tk_now one_minute_late \<and>
   asyncio_sleep_wait (total_seconds (1767227700000000 - tk_now one_minute_late)) = 0 \<and>
   snd (send_checkin_closed boarding_task one_minute_late) = Inr ()"
proof -
  have a: "dl_lock_time boarding_task = Aware 1767227700000000"
    by (simp add: boarding_task_def)
  have b: "1767227700000000 \<le> tk_now one_minute_late"
    by (simp add: one_minute_late_def)
  have c: "tk_delete one_minute_late = None"
    by (simp add: one_minute_late_def)
  from past_lock_time_fires_at_once [OF a b] a b c show ?thesis
    by auto
qed

text \<open>
  Claim C4 as stated fails: the code does not clamp. One minute after the lock time the
  argument of \<^verbatim>\<open>asyncio.sleep\<close> is \<open>- 60\<close>.
\<close>

lemma minus_sixty: "total_seconds (- 60000000) = - 60"
  by code_simp

theorem negative_delay_is_not_clamped:
  "send_checkin_closed boarding_task one_minute_late =
     ([Sleep (- 60),
       MessageDelete,
       ChannelSend (PInt 1290777608782483640)
         (Text (closed_message ''Edinburgh'' ''EA301'' ''Madeira''))],
      Inr ())"
  by (simp add: send_checkin_closed_def seq_simps seq_Inr seq_Inl emit_def ret_def
      boarding_task_def one_minute_late_def minus_sixty)

subsection \<open>The upcoming flights\<close>

lemma keep_upcoming_filter:
  assumes "\<forall>e \<in> set events. fromisoformat (butlast (ev_scheduled_start_time e)) = Inr (Naive (start e))"
  shows "keep_upcoming fromisoformat utcnow i events =
           Inr (map fst (filter (\<lambda>(e, j). utcnow j < start e)
                           (zip events [i..<i + length events])))"
  using assms
proof (induction events arbitrary: i)
  case Nil
  show ?case by simp
next
  case (Cons e es)
  have "i < i + length (e # es)" by simp
  from upt_conv_Cons [OF this]
  have upt: "[i..<i + length (e # es)] = i # [Suc i..<Suc i + length es]"
    by simp
  from Cons.prems have e: "fromisoformat (butlast (ev_scheduled_start_time e)) = Inr (Naive (start e))"
    and rest: "\<forall>e \<in> set es. fromisoformat (butlast (ev_scheduled_start_time e)) = Inr (Naive (start e))"
    by simp_all
  from Cons.IH [OF rest, of "Suc i"] e show ?case
    unfolding upt by simp
qed

text \<open>
  Claim C2, as amended. Provided every item's start time, without its last character,
  parses as a naive datetime, the tick retains exactly the items whose parsed start time
  is strictly after the naive UTC clock reading taken when the item is tested, and orders
  them ascending by the start time as a string, items with equal strings staying in
  fetch order. The result is ascending by start time whenever, on the retained items,
  the order of the strings agrees with the order of the times they denote.
\<close>

theorem upcoming_filtered_and_sorted:
  assumes parsed: "\<forall>e \<in> set events.
             fromisoformat (butlast (ev_scheduled_start_time e)) = Inr (Naive (start e))"
    and kept: "kept = map fst (filter (\<lambda>(e, j). utcnow j < start e)
                                 (zip events [0..<length events]))"
  shows "\<exists>upcoming.
           upcoming_events fromisoformat utcnow events = Inr upcoming \<and>
           upcoming = sort_key ev_scheduled_start_time kept \<and>
           set upcoming = set kept \<and> length upcoming = length kept \<and>
           sorted (map ev_scheduled_start_time upcoming) \<and>
           (\<forall>k. filter (\<lambda>e. ev_scheduled_start_time e = k) upcoming =
                filter (\<lambda>e. ev_scheduled_start_time e = k) kept) \<and>
           ((\<forall>a \<in> set kept. \<forall>b \<in> set kept.
               ev_scheduled_start_time a \<le> ev_scheduled_start_time b \<longrightarrow> start a \<le> start b) \<longrightarrow>
            sorted (map start upcoming))"
proof -
  define upcoming where "upcoming = sort_key ev_scheduled_start_time kept"
  from keep_upcoming_filter [OF parsed, of utcnow 0]
  have run: "upcoming_events fromisoformat utcnow events = Inr upcoming"
    by (simp add: upcoming_events_def kept upcoming_def)
  have same: "set upcoming = set kept" "length upcoming = length kept"
    by (simp_all add: upcoming_def)
  have by_text: "sorted (map ev_scheduled_start_time upcoming)"
    by (simp add: upcoming_def)
  have stable: "filter (\<lambda>e. ev_scheduled_start_time e = k) upcoming =
                filter (\<lambda>e. ev_scheduled_start_time e = k) kept" for k
    by (simp add: upcoming_def sort_key_stable)
  have by_time: "sorted (map start upcoming)"
    if mono: "\<forall>a \<in> set kept. \<forall>b \<in> set kept.
                ev_scheduled_start_time a \<le> ev_scheduled_start_time b \<longrightarrow> start a \<le> start b"
  proof -
    from by_text
    have "sorted_wrt (\<lambda>a b. ev_scheduled_start_time a \<le> ev_scheduled_start_time b) upcoming"
      by (simp add: sorted_map)
    then have "sorted_wrt (\<lambda>a b. start a \<le> start b) upcoming"
      by (rule sorted_wrt_mono_rel [rotated]) (use mono same in auto)
    then show ?thesis by (simp add: sorted_map)
  qed
  from run same by_text stable by_time show ?thesis
    unfolding upcoming_def by blast
qed


lemma sample_starts:
  "fixed_fromisoformat (butlast (ev_scheduled_start_time event_a)) = Inr (Naive 1893492000000000)"
  "fixed_fromisoformat (butlast (ev_scheduled_start_time event_b)) = Inr (Naive 1893499200000000)"
  "fixed_fromisoformat (butlast (ev_scheduled_start_time flight_past)) = Inr (Naive 1767225300000000)"
  "fixed_fromisoformat (butlast (ev_scheduled_start_time flight_whole)) = Inr (Naive 1893456000000000)"
  "fixed_fromisoformat (butlast (ev_scheduled_start_time flight_half)) = Inr (Naive 1893456000500000)"
  by code_simp+

lemma sample_start_values:
  "sample_start event_a = 1893492000000000"
  "sample_start event_b = 1893499200000000"
  "sample_start flight_past = 1767225300000000"
  "sample_start flight_whole = 1893456000000000"
  "sample_start flight_half = 1893456000500000"
  by (simp_all add: sample_start_def sample_starts)

theorem upcoming_filtered_and_sorted_witness:
  "fixed_fromisoformat (butlast (ev_scheduled_start_time event_b)) =
     Inr (Naive (sample_start event_b)) \<and>
   fixed_fromisoformat (butlast (ev_scheduled_start_time flight_past)) =
     Inr (Naive (sample_start flight_past)) \<and>
   fixed_fromisoformat (butlast (ev_scheduled_start_time event_a)) =
     Inr (Naive (sample_start event_a)) \<and>
   upcoming_events fixed_fromisoformat new_year [event_b, flight_past, event_a] =
     Inr [event_a, event_b] \<and>
   sorted (map sample_start [event_a, event_b])"
proof -
  have parsed: "\<forall>e \<in> set [event_b, flight_past, event_a].
      fixed_fromisoformat (butlast (ev_scheduled_start_time e)) = Inr (Naive (sample_start e))"
    by (simp add: sample_starts sample_start_values)
  have kept: "[event_b, event_a] =
      map fst (filter (\<lambda>(e, j). new_year j < sample_start e)
                 (zip [event_b, flight_past, event_a] [0..<length [event_b, flight_past, event_a]]))"
    by (simp add: sample_start_values new_year_def upt_rec [of 0] upt_rec [of 1] upt_rec [of 2]
        upt_rec [of "Suc 0"])
  have order: "sort_key ev_scheduled_start_time [event_b, event_a] = [event_a, event_b]"
    by (simp add: event_a_def event_b_def)
  from upcoming_filtered_and_sorted [OF parsed kept] obtain upcoming where
    run: "upcoming_events fixed_fromisoformat new_year [event_b, flight_past, event_a] = Inr upcoming"
    and sorted: "upcoming = sort_key ev_scheduled_start_time [event_b, event_a]"
    by blast
  from sorted have "upcoming = [event_a, event_b]"
    unfolding order .
  with run parsed show ?thesis
    by (simp add: sample_start_values)
qed

text \<open>
  Claim C2 as stated fails: the sort key is the string. Of two items half a second
  apart, fetched in the order of their times, the later one comes first in the result
  because its string continues with a full stop where the other has the letter Z.
\<close>

theorem upcoming_not_sorted_by_time:
  "upcoming_events fixed_fromisoformat new_year [flight_whole, flight_half] =
     Inr [flight_half, flight_whole] \<and>
   fixed_fromisoformat (butlast (ev_scheduled_start_time flight_half)) =
     Inr (Naive 1893456000500000) \<and>
   fixed_fromisoformat (butlast (ev_scheduled_start_time flight_whole)) =
     Inr (Naive 1893456000000000)"
proof -
  have order: "sort_key ev_scheduled_start_time [flight_whole, flight_half] =
      [flight_half, flight_whole]"
    by (simp add: flight_whole_def flight_half_def)
  then show ?thesis
    by (simp add: upcoming_events_def sample_starts new_year_def)
qed

subsection \<open>The template and the pattern\<close>

lemma match_Lit: "match_at (Lit l # ts) (l @ s) = match_at ts s"
  by simp

lemma match_Lit_None: "take (length l) s \<noteq> l \<Longrightarrow> match_at (Lit l # ts) s = None"
  by simp

lemma greedy_run:
  "ds \<noteq> [] \<Longrightarrow> \<forall>c \<in> set ds. P c \<Longrightarrow> \<not> P d \<Longrightarrow> k (d # s) = Some r \<Longrightarrow>
   greedy P k (ds @ d # s) = Some r"
proof (induction ds)
  case Nil
  then show ?case by simp
next
  case (Cons c ds)
  show ?case
  proof (cases "ds = []")
    case True
    with Cons.prems show ?thesis by simp
  next
    case False
    with Cons have "greedy P k (ds @ d # s) = Some r" by simp
    with Cons.prems show ?thesis by simp
  qed
qed

lemma lazy_shortest:
  "g \<noteq> [] \<Longrightarrow>
   (\<And>j. 0 < j \<Longrightarrow> j < length g \<Longrightarrow> k (acc @ take j g) (drop j g @ s) = None) \<Longrightarrow>
   k (acc @ g) s = Some r \<Longrightarrow>
   lazy k acc (g @ s) = Some r"
proof (induction g arbitrary: acc)
  case Nil
  then show ?case by simp
next
  case (Cons c g)
  show ?case
  proof (cases "g = []")
    case True
    with Cons.prems(3) show ?thesis by simp
  next
    case False
    from Cons.prems(2) [of 1] False have first: "k (acc @ [c]) (g @ s) = None"
      by simp
    have later: "k ((acc @ [c]) @ take j g) (drop j g @ s) = None"
      if "0 < j" "j < length g" for j
      using Cons.prems(2) [of "Suc j"] that by simp
    from Cons.prems(3) have last: "k ((acc @ [c]) @ g) s = Some r"
      by simp
    from Cons.IH [OF False later last] first show ?thesis
      by simp
  qed
qed

lemma has_stars_Cons: "has_stars s \<Longrightarrow> has_stars (x # s)"
  by (cases s) auto

lemma has_stars_drop: "has_stars (drop j g) \<Longrightarrow> has_stars g"
proof (induction j arbitrary: g)
  case 0
  then show ?case by simp
next
  case (Suc j)
  show ?case
  proof (cases g)
    case Nil
    with Suc.prems show ?thesis by simp
  next
    case (Cons x xs)
    with Suc.prems have "has_stars (drop j xs)" by simp
    then have "has_stars xs" by (rule Suc.IH)
    then show ?thesis unfolding Cons by (rule has_stars_Cons)
  qed
qed

lemma separator_not_inside:
  assumes "t \<noteq> []" and "\<not> has_stars t" and "c \<noteq> CHR ''*''"
  shows "take (Suc (Suc (Suc n))) (t @ CHR ''*'' # CHR ''*'' # c # x) \<noteq> CHR ''*'' # CHR ''*'' # c # y"
proof (cases t)
  case Nil
  with assms show ?thesis by simp
next
  case (Cons a t')
  with assms show ?thesis by (cases t') auto
qed


lemma match_Group:
  "match_at (Group # ts) s = lazy (\<lambda>g rest. map_option (Cons g) (match_at ts rest)) [] s"
  by simp

lemma match_Spaces_one:
  "\<not> is_space d \<Longrightarrow> match_at (Spaces # ts) (CHR '' '' # d # s) = match_at ts (d # s)"
  by (simp add: is_space_def)

lemma group_step:
  assumes "g \<noteq> []" and "\<not> has_stars g" and "c \<noteq> CHR ''*''"
    and "match_at ts s = Some gs"
  shows "match_at (Group # Lit (CHR ''*'' # CHR ''*'' # c # sep) # ts)
           (g @ (CHR ''*'' # CHR ''*'' # c # sep) @ s) = Some (g # gs)"
proof -
  define l where "l = CHR ''*'' # CHR ''*'' # c # sep"
  define k where "k = (\<lambda>g rest. map_option (Cons g) (match_at (Lit l # ts) rest))"
  have len: "length l = Suc (Suc (Suc (length sep)))"
    by (simp add: l_def)
  have fail: "k ([] @ take j g) (drop j g @ l @ s) = None" if "0 < j" "j < length g" for j
  proof -
    from that have a: "drop j g \<noteq> []" by simp
    from assms(2) has_stars_drop [of j g] have b: "\<not> has_stars (drop j g)" by blast
    from separator_not_inside [OF a b assms(3), of "length sep" "sep @ s" sep]
    have "take (length l) (drop j g @ l @ s) \<noteq> l"
      by (simp add: l_def)
    from match_Lit_None [OF this] show ?thesis
      by (simp only: k_def option.map)
  qed
  have ok: "k ([] @ g) (l @ s) = Some (g # gs)"
    by (simp only: k_def match_Lit assms(4) option.map append_Nil)
  from lazy_shortest [of g k "[]" "l @ s", OF assms(1) fail ok]
  have "lazy k [] (g @ l @ s) = Some (g # gs)" .
  then show ?thesis
    by (simp only: match_Group k_def l_def)
qed

lemma strip_id:
  "s \<noteq> [] \<Longrightarrow> \<not> is_space (hd s) \<Longrightarrow> \<not> is_space (last s) \<Longrightarrow> strip s = s"
proof -
  assume a: "s \<noteq> []" "\<not> is_space (hd s)" "\<not> is_space (last s)"
  then have front: "dropWhile is_space s = s"
    by (cases s) auto
  from a have "rev s \<noteq> []" "\<not> is_space (hd (rev s))"
    by (simp_all add: hd_rev)
  then have "dropWhile is_space (rev s) = rev s"
    by (cases "rev s") auto
  with front show ?thesis
    by (simp add: strip_def)
qed

lemma template_match:
  assumes fn: "flight_number \<noteq> []" "\<not> has_stars flight_number"
    and dep: "departure \<noteq> []" "\<not> has_stars departure"
    and arr: "arrival \<noteq> []" "\<not> has_stars arrival"
  shows "match_at pattern (creation_description flight_number departure arrival aircraft_type) =
           Some [flight_number, departure, arrival]"
proof -
  define r3 where "r3 = '' a **'' @ aircraft_type
     @ ''**.\<newline>\<newline><:Star:1375535064141795460> All passengers are requested to review the flight itinerary in `#itinerary` prior to departure to ensure a smooth and professional operation.''"
  define t3 where "t3 = arrival @ ''** aboard'' @ r3"
  define t2 where "t2 = departure @ ''** to'' @ CHR '' '' # CHR ''*'' # ''*'' @ t3"
  define t1 where "t1 = flight_number @ ''**, operating from'' @ CHR '' '' # CHR ''*'' # ''*'' @ t2"
  define u4 where "u4 = CHR '' '' # CHR ''*'' # ''*'' @ t1"
  define u3 where
    "u3 = ''*Etihad Airways** cordially invites you to attend Flight'' @ u4"
  have whole: "creation_description flight_number departure arrival aircraft_type =
      ''<:Tail:'' @ ''1375059430269517885'' @ CHR ''>'' # CHR '' '' # CHR ''*'' # u3"
    by (simp add: creation_description_def t1_def t2_def t3_def r3_def u3_def u4_def)
  have m3: "match_at [Group, Lit ''** aboard''] t3 = Some [arrival]"
    unfolding t3_def using group_step [OF arr, of "CHR '' ''" "[]" r3 "[]" "''aboard''"]
    by simp
  have s3: "match_at [Spaces, Lit ''**'', Group, Lit ''** aboard'']
              (CHR '' '' # CHR ''*'' # ''*'' @ t3) = Some [arrival]"
  proof -
    have "match_at [Spaces, Lit ''**'', Group, Lit ''** aboard'']
              (CHR '' '' # CHR ''*'' # ''*'' @ t3)
          = match_at [Lit ''**'', Group, Lit ''** aboard''] (''**'' @ t3)"
      using match_Spaces_one [of "CHR ''*''" "[Lit ''**'', Group, Lit ''** aboard'']" "''*'' @ t3"]
      by (simp add: is_space_def)
    also have "\<dots> = match_at [Group, Lit ''** aboard''] t3"
      by (rule match_Lit)
    finally show ?thesis by (simp only: m3)
  qed
  have m2: "match_at [Group, Lit ''** to'', Spaces, Lit ''**'', Group, Lit ''** aboard''] t2 =
              Some [departure, arrival]"
    unfolding t2_def
    using group_step [OF dep _ s3, of "CHR '' ''" "''to''"]
    by simp
  have s2: "match_at [Spaces, Lit ''**'', Group, Lit ''** to'', Spaces, Lit ''**'', Group,
                      Lit ''** aboard'']
              (CHR '' '' # CHR ''*'' # ''*'' @ t2) = Some [departure, arrival]"
  proof -
    have "match_at [Spaces, Lit ''**'', Group, Lit ''** to'', Spaces, Lit ''**'', Group,
                      Lit ''** aboard'']
              (CHR '' '' # CHR ''*'' # ''*'' @ t2)
          = match_at [Lit ''**'', Group, Lit ''** to'', Spaces, Lit ''**'', Group,
                      Lit ''** aboard''] (''**'' @ t2)"
      using match_Spaces_one [of "CHR ''*''" _ "''*'' @ t2"]
      by (simp add: is_space_def)
    also have "\<dots> = match_at [Group, Lit ''** to'', Spaces, Lit ''**'', Group,
                      Lit ''** aboard''] t2"
      by (rule match_Lit)
    finally show ?thesis by (simp only: m2)
  qed
  have m1: "match_at [Group, Lit ''**, operating from'', Spaces, Lit ''**'', Group, Lit ''** to'',
                      Spaces, Lit ''**'', Group, Lit ''** aboard''] t1 =
              Some [flight_number, departure, arrival]"
    unfolding t1_def
    using group_step [OF fn _ s2, of "CHR '',''" "'' operating from''"]
    by simp
  define ts4 where "ts4 = [Spaces, Lit ''**'', Group, Lit ''**, operating from'', Spaces,
     Lit ''**'', Group, Lit ''** to'', Spaces, Lit ''**'', Group, Lit ''** aboard'']"
  have p4: "match_at ts4 u4 = Some [flight_number, departure, arrival]"
  proof -
    have "match_at ts4 u4
          = match_at [Lit ''**'', Group, Lit ''**, operating from'', Spaces, Lit ''**'',
                      Group, Lit ''** to'', Spaces, Lit ''**'', Group, Lit ''** aboard'']
              (''**'' @ t1)"
      unfolding ts4_def u4_def
      using match_Spaces_one [of "CHR ''*''" _ "''*'' @ t1"]
      by (simp add: is_space_def)
    also have "\<dots> = match_at [Group, Lit ''**, operating from'', Spaces, Lit ''**'',
                      Group, Lit ''** to'', Spaces, Lit ''**'', Group, Lit ''** aboard''] t1"
      by (rule match_Lit)
    finally show ?thesis by (simp only: m1)
  qed
  define ts3 where
    "ts3 = Lit ''**Etihad Airways** cordially invites you to attend Flight'' # ts4"
  have p3: "match_at ts3 (''**Etihad Airways** cordially invites you to attend Flight'' @ u4) =
            Some [flight_number, departure, arrival]"
    using p4 by (simp only: match_Lit ts3_def)
  have p2: "match_at (Spaces # ts3) (CHR '' '' # CHR ''*'' # u3) =
            Some [flight_number, departure, arrival]"
  proof -
    have step: "match_at (Spaces # ts3) (CHR '' '' # CHR ''*'' # u3) = match_at ts3 (CHR ''*'' # u3)"
      by (rule match_Spaces_one) (simp add: is_space_def)
    have eq: "CHR ''*'' # u3 = ''**Etihad Airways** cordially invites you to attend Flight'' @ u4"
      by (simp add: u3_def)
    have "match_at ts3 (CHR ''*'' # u3) = Some [flight_number, departure, arrival]"
      using p3 by (simp only: eq)
    with step show ?thesis by (simp only:)
  qed
  have p1: "match_at (Lit ''>'' # Spaces # ts3) (CHR ''>'' # CHR '' '' # CHR ''*'' # u3) =
            Some [flight_number, departure, arrival]"
    using match_Lit [of "''>''" "Spaces # ts3" "CHR '' '' # CHR ''*'' # u3"] p2
    by simp
  have digits: "\<forall>c \<in> set ''1375059430269517885''. is_digit c"
    by (simp add: is_digit_def)
  have p0: "match_at (Digits # Lit ''>'' # Spaces # ts3)
              (''1375059430269517885'' @ CHR ''>'' # CHR '' '' # CHR ''*'' # u3) =
            Some [flight_number, departure, arrival]"
  proof -
    have "greedy is_digit (match_at (Lit ''>'' # Spaces # ts3))
            (''1375059430269517885'' @ CHR ''>'' # CHR '' '' # CHR ''*'' # u3) =
          Some [flight_number, departure, arrival]"
      using greedy_run [of "''1375059430269517885''" is_digit "CHR ''>''"
          "match_at (Lit ''>'' # Spaces # ts3)" "CHR '' '' # CHR ''*'' # u3"
          "[flight_number, departure, arrival]"] digits p1
      by (simp add: is_digit_def)
    then show ?thesis by simp
  qed
  have "match_at pattern (''<:Tail:'' @ ''1375059430269517885'' @ CHR ''>'' # CHR '' '' # CHR ''*'' # u3)
          = match_at (Digits # Lit ''>'' # Spaces # ts3)
              (''1375059430269517885'' @ CHR ''>'' # CHR '' '' # CHR ''*'' # u3)"
    unfolding pattern_def ts3_def ts4_def by (rule match_Lit)
  with p0 whole show ?thesis
    by (simp only:)
qed

lemma search_found: "s \<noteq> [] \<Longrightarrow> match_at ts s = Some gs \<Longrightarrow> search ts s = Some gs"
  by (cases s) simp_all

lemma template_strip:
  "strip (creation_description flight_number departure arrival aircraft_type) =
     creation_description flight_number departure arrival aircraft_type"
  by (rule strip_id) (simp_all add: creation_description_def is_space_def)

text \<open>
  Claim C5, as amended. For every flight number, departure and arrival that are not
  empty, contain no two asterisks in a row and have no white space at either end, and
  for every aircraft type, the description built by the creation template is what
  \<open>flight_start\<close> searches (stripping it changes nothing), the pattern matches it, and the
  three texts extracted are the original flight number, departure and arrival.
\<close>

theorem template_round_trip:
  assumes "flight_number \<noteq> []" and "\<not> has_stars flight_number"
    and "strip flight_number = flight_number"
    and "departure \<noteq> []" and "\<not> has_stars departure" and "strip departure = departure"
    and "arrival \<noteq> []" and "\<not> has_stars arrival" and "strip arrival = arrival"
  shows "strip (creation_description flight_number departure arrival aircraft_type) =
           creation_description flight_number departure arrival aircraft_type \<and>
         parse_description
           (creation_description flight_number departure arrival aircraft_type) =
           Some (flight_number, departure, arrival)"
proof -
  have "creation_description flight_number departure arrival aircraft_type \<noteq> []"
    by (simp add: creation_description_def)
  from search_found [OF this template_match [OF assms(1,2,4,5,7,8)]]
  have "parse_description
          (creation_description flight_number departure arrival aircraft_type) =
        Some (strip flight_number, strip departure, strip arrival)"
    by (simp add: parse_description_def)
  with assms(3,6,9) template_strip show ?thesis
    by simp
qed

lemma plain_names:
  "\<not> has_stars ''EA301''" "strip ''EA301'' = ''EA301''"
  "\<not> has_stars ''Edinburgh''" "strip ''Edinburgh'' = ''Edinburgh''"
  "\<not> has_stars ''Madeira''" "strip ''Madeira'' = ''Madeira''"
  by (simp_all add: strip_def is_space_def)

theorem template_round_trip_witness:
  "''EA301'' \<noteq> [] \<and> \<not> has_stars ''EA301'' \<and> strip ''EA301'' = ''EA301'' \<and>
   \<not> has_stars ''Edinburgh'' \<and> strip ''Edinburgh'' = ''Edinburgh'' \<and>
   \<not> has_stars ''Madeira'' \<and> strip ''Madeira'' = ''Madeira'' \<and>
   parse_description (creation_description ''EA301'' ''Edinburgh'' ''Madeira'' ''A320neo'') =
     Some (''EA301'', ''Edinburgh'', ''Madeira'')"
  using template_round_trip [of "''EA301''" "''Edinburgh''" "''Madeira''" "''A320neo''"]
  by (simp add: plain_names)

text \<open>
  Claim C5 as stated fails in three ways: a departure that contains the text that
  separates departure and arrival moves the boundary between them; white space at the
  ends of a field is stripped; with an empty flight number the pattern does not match.
\<close>

theorem template_round_trip_fails:
  "parse_description (creation_description ''EA301'' ''A** to **B'' ''C'' ''A320neo'') =
     Some (''EA301'', ''A'', ''B** to **C'') \<and>
   parse_description (creation_description '' EA301'' ''Edinburgh'' ''Madeira'' ''A320neo'') =
     Some (''EA301'', ''Edinburgh'', ''Madeira'') \<and>
   parse_description (creation_description [] ''Edinburgh'' ''Madeira'' ''A320neo'') = None"
  by code_simp

end
